theory Spec2Isabelle
  imports Complex_Main
begin

section \<open>The single-page UI: the view state (src/App.tsx and its later revision)\<close>

text \<open>
  \<^verbatim>\<open>const [view, setView] = useState<'home' | 'chat' | ...>('home')\<close>.
  TypeScript's union type is erased at run time, so the view is modelled as the JavaScript
  string it is, and every \<^verbatim>\<open>setView\<close> call of the source as the literal it passes.
  Of the component's state only the parts that guard a \<^verbatim>\<open>setView\<close> call are kept:
  whether \<^verbatim>\<open>user\<close> and \<^verbatim>\<open>token\<close> are non-null, and the current conversation id.
\<close>

datatype app_file = AppTsx | AppLater

record app_state =
  view :: string
  user_set :: bool
  token_set :: bool
  currentConversationId :: "string option"

definition app_init :: app_state where
  "app_init = \<lparr>view = ''home'', user_set = False, token_set = False,
     currentConversationId = None\<rparr>"

text \<open>
  \<^verbatim>\<open>text.trim()\<close>: the white space it strips, as far as single bytes go (space, tab,
  line feed, vertical tab, form feed, carriage return).
\<close>

definition js_whitespace :: "char \<Rightarrow> bool" where
  "js_whitespace c = (c \<in> set [CHR '' '', CHR 0x09, CHR 0x0A, CHR 0x0B, CHR 0x0C, CHR 0x0D])"

definition trim :: "string \<Rightarrow> string" where
  "trim t = rev (dropWhile js_whitespace (rev (dropWhile js_whitespace t)))"

text \<open>What a handler's closure captured at the render that created it.\<close>

record closure =
  seen_view :: string
  seen_user :: bool
  seen_token :: bool

definition closure_of :: "app_state \<Rightarrow> closure" where
  "closure_of s = \<lparr>seen_view = view s, seen_user = user_set s, seen_token = token_set s\<rparr>"

text \<open>
  \<^verbatim>\<open>handleSend\<close> up to its first \<^verbatim>\<open>await\<close>; nothing after it touches the view.
  The later revision also accepts an attached file and asks for a signed-in user first.
\<close>

definition handleSend :: "app_file \<Rightarrow> closure \<Rightarrow> string \<Rightarrow> bool \<Rightarrow> app_state \<Rightarrow> app_state" where
  "handleSend f c txt selectedFile s =
     (case f of
        AppTsx \<Rightarrow>
          if trim txt = [] then s
          else if seen_view c \<noteq> ''chat'' then s\<lparr>view := ''chat''\<rparr> else s
      | AppLater \<Rightarrow>
          if trim txt = [] \<and> \<not> selectedFile then s
          else if \<not> seen_user c \<or> \<not> seen_token c then s
          else if seen_view c \<noteq> ''chat'' then s\<lparr>view := ''chat''\<rparr> else s)"

definition handleNewChat :: "app_state \<Rightarrow> app_state" where
  "handleNewChat s = s\<lparr>currentConversationId := None, view := ''chat''\<rparr>"

text \<open>
  \<^verbatim>\<open>handleDeleteAll\<close>: \<^verbatim>\<open>confirmed\<close> is the answer of the confirm dialog,
  \<^verbatim>\<open>fetched\<close> is False when the request throws and the catch block only logs.
\<close>

definition handleDeleteAll :: "closure \<Rightarrow> bool \<Rightarrow> bool \<Rightarrow> app_state \<Rightarrow> app_state" where
  "handleDeleteAll c confirmed fetched s =
     (if \<not> seen_user c then s
      else if confirmed then
        (if fetched then s\<lparr>currentConversationId := None, view := ''home''\<rparr> else s)
      else s)"

definition mockLogout :: "app_state \<Rightarrow> app_state" where
  "mockLogout s = s\<lparr>user_set := False, token_set := False, view := ''home'',
     currentConversationId := None\<rparr>"

datatype event =
    NavChat | NavVoice | NavImagine | NavProjects | NavHistory | NavGrokpedia
  | MicButton
  | VoiceResult closure string bool
  | VoiceBack
  | HistoryOpen string
  | Send string bool
  | NewChat
  | DeleteAll bool bool
  | SignOut
  | SignedIn
  | Unauthorized

text \<open>
  One event of the page. The sidebar entries are always rendered; the microphone button
  exists in the home and chat views, the back button in the voice view, the conversation
  list in the history view. In the later revision the microphone starts speech recognition,
  whose result calls \<^verbatim>\<open>handleSend\<close> with what the render that started it had captured.
\<close>

fun app_step :: "app_file \<Rightarrow> app_state \<Rightarrow> event \<Rightarrow> app_state" where
  "app_step f s NavChat = s\<lparr>view := ''chat''\<rparr>"
| "app_step f s NavVoice = s\<lparr>view := ''voice''\<rparr>"
| "app_step f s NavImagine = s\<lparr>view := ''imagine''\<rparr>"
| "app_step f s NavProjects = s\<lparr>view := ''projects''\<rparr>"
| "app_step f s NavHistory = s\<lparr>view := ''history''\<rparr>"
| "app_step f s NavGrokpedia = s\<lparr>view := ''grokpedia''\<rparr>"
| "app_step f s MicButton =
     (if view s = ''home'' \<or> view s = ''chat'' then s\<lparr>view := ''voice''\<rparr> else s)"
| "app_step f s (VoiceResult c txt selectedFile) =
     (case f of AppTsx \<Rightarrow> s | AppLater \<Rightarrow> handleSend f c txt selectedFile s)"
| "app_step f s VoiceBack = (if view s = ''voice'' then s\<lparr>view := ''chat''\<rparr> else s)"
| "app_step f s (HistoryOpen cid) =
     (if view s = ''history'' then s\<lparr>currentConversationId := Some cid, view := ''chat''\<rparr>
      else s)"
| "app_step f s (Send txt selectedFile) = handleSend f (closure_of s) txt selectedFile s"
| "app_step f s NewChat = handleNewChat s"
| "app_step f s (DeleteAll confirmed fetched) = handleDeleteAll (closure_of s) confirmed fetched s"
| "app_step f s SignOut = mockLogout s"
| "app_step f s SignedIn = s\<lparr>user_set := True, token_set := True\<rparr>"
| "app_step f s Unauthorized =
     (case f of AppTsx \<Rightarrow> s | AppLater \<Rightarrow> s\<lparr>user_set := False, token_set := False\<rparr>)"

definition app_run :: "app_file \<Rightarrow> event list \<Rightarrow> app_state" where
  "app_run f evs = foldl (app_step f) app_init evs"

definition views :: "string list" where
  "views = [''home'', ''chat'', ''voice'', ''imagine'', ''history'', ''projects'', ''grokpedia'']"

section \<open>The particle background (ParticleBackground in src/App.tsx)\<close>

text \<open>
  The effect body, from the point where the canvas and its 2d context exist. JavaScript
  numbers are idealised as reals; \<^verbatim>\<open>Math.random\<close> is a sequence of draws handed in by
  the caller, three per constructed node, in construction order.
\<close>

datatype theme = Dark | Light

record node =
  n_x :: real
  n_y :: real
  n_ox :: real
  n_oy :: real
  n_vx :: real
  n_vy :: real
  n_r :: real

record mouse =
  mouse_x :: "real option"
  mouse_y :: "real option"
  mouse_down :: bool

definition hypot :: "real \<Rightarrow> real \<Rightarrow> real" where
  "hypot a b = sqrt (a * a + b * b)"



definition repel :: "mouse \<Rightarrow> node \<Rightarrow> node" where
  "repel m n =
     (case (mouse_x m, mouse_y m) of
        (Some mx, Some my) \<Rightarrow>
          (let dx = mx - n_x n; dy = my - n_y n; d = hypot dx dy in
           if d < 260 then
             (let f = (260 - d) / 260; p = (if mouse_down m then f * 16 else f * 1.2) in
              n\<lparr>n_vx := n_vx n - dx * p * 0.18, n_vy := n_vy n - dy * p * 0.18\<rparr>)
           else n)
      | _ \<Rightarrow> n)"

definition update :: "mouse \<Rightarrow> node \<Rightarrow> node" where
  "update m n =
     (let n1 = repel m n;
          n2 = n1\<lparr>n_x := n_x n1 + n_vx n1, n_y := n_y n1 + n_vy n1\<rparr>;
          n3 = n2\<lparr>n_vx := n_vx n2 * 0.96, n_vy := n_vy n2 * 0.96\<rparr>
      in n3\<lparr>n_x := n_x n3 + (n_ox n3 - n_x n3) * 0.005,
            n_y := n_y n3 + (n_oy n3 - n_y n3) * 0.005\<rparr>)"










section \<open>The HTTP API: requests, responses, exceptions\<close>

text \<open>
  The repository holds three revisions of the Express server: \<^verbatim>\<open>server.ts\<close> (MongoDB,
  bearer tokens, bcrypt), a later revision of it with image input and image generation,
  and an earlier one on SQLite without tokens or hashing. A handler is modelled as a
  function from the request and the database to a response and the database; what a
  handler awaits may reject, so its \<^verbatim>\<open>try\<close> block is a computation that ends in a
  value or an exception, and the database it leaves is kept either way.
\<close>

datatype json =
    JBool bool
  | JNum int
  | JStr string
  | JId nat
  | JDate nat
  | JArr "json list"
  | JObj "(string \<times> json) list"

record response =
  status :: nat
  body :: json

definition send :: "nat \<Rightarrow> json \<Rightarrow> response" where
  "send code j = \<lparr>status = code, body = j\<rparr>"

definition error_json :: "string \<Rightarrow> json" where
  "error_json msg = JObj [(''error'', JStr msg)]"

datatype exn =
    ValidationError
  | CastError
  | DuplicateKey
  | DbError
  | TypeError
  | ModelError
  | BcryptError
  | SqliteConstraintUnique
  | SqliteError

type_synonym ('s, 'a) action = "'s \<Rightarrow> (exn + 'a) \<times> 's"

definition ok :: "'a \<Rightarrow> ('s, 'a) action" where
  "ok a = (\<lambda>s. (Inr a, s))"

definition throw :: "exn \<Rightarrow> ('s, 'a) action" where
  "throw e = (\<lambda>s. (Inl e, s))"

definition lift :: "exn + 'a \<Rightarrow> ('s, 'a) action" where
  "lift r = (\<lambda>s. (r, s))"

definition andThen :: "('s, 'a) action \<Rightarrow> ('a \<Rightarrow> ('s, 'b) action) \<Rightarrow> ('s, 'b) action" where
  "andThen m k = (\<lambda>s. case m s of (Inl e, s') \<Rightarrow> (Inl e, s') | (Inr a, s') \<Rightarrow> k a s')"

text \<open>\<^verbatim>\<open>try { ... } catch (error) { ... }\<close> around a handler's body.\<close>

definition try_catch :: "('s, response) action \<Rightarrow> (exn \<Rightarrow> response) \<Rightarrow> 's \<Rightarrow> response \<times> 's" where
  "try_catch blk handler s =
     (case blk s of (Inl e, s') \<Rightarrow> (handler e, s') | (Inr r, s') \<Rightarrow> (r, s'))"

text \<open>
  A reference to a document in a request: absent (\<^verbatim>\<open>undefined\<close>), a string that does
  not parse as an ObjectId, or an id.
\<close>

datatype idref = Absent | Malformed | Id nat

text \<open>A part of a model message: a text, or inline data written
  \<^verbatim>\<open>InlinePart mimeType data\<close>.\<close>

datatype part = TextPart string | InlinePart string string

record history_item =
  h_role :: string
  h_text :: string

record content =
  g_role :: string
  g_parts :: "part list"

record image =
  img_data :: string
  img_mimeType :: string

text \<open>
  \<^verbatim>\<open>req\<close>: the authorization header, the route parameter, the query and the parsed JSON
  body. A field that a handler destructures and the request lacks is None (Absent for a
  document reference); text fields, when present, are strings.
\<close>

record request =
  authorization :: "string option"
  param_id :: idref
  q_conversationId :: idref
  b_name :: "string option"
  b_email :: "string option"
  b_password :: "string option"
  b_conversationId :: idref
  b_text :: "string option"
  b_history :: "history_item list option"
  b_image :: "image option"
  b_prompt :: "string option"
  b_title :: "string option"
  b_description :: "string option"
  b_content :: "string option"
  b_completed :: "bool option"

text \<open>\<^verbatim>\<open>!x\<close> for a string that may be undefined.\<close>

definition falsy :: "string option \<Rightarrow> bool" where
  "falsy x = (case x of None \<Rightarrow> True | Some t \<Rightarrow> t = [])"

text \<open>\<^verbatim>\<open>x || d\<close> for a string that may be undefined.\<close>

definition or_else :: "string option \<Rightarrow> string \<Rightarrow> string" where
  "or_else x d = (case x of None \<Rightarrow> d | Some t \<Rightarrow> if t = [] then d else t)"

record payload =
  pl_id :: nat
  pl_email :: string

text \<open>
  What the handlers call that is not this repository's code: the clock, the random draw
  of the avatar colour, jsonwebtoken (with the server's secret), bcryptjs, and the
  generative model. \<^verbatim>\<open>jwt_verify\<close> gives the payload of a token that verifies; the
  payloads are those \<^verbatim>\<open>jwt.sign\<close> is given here, an id and an email.
  \<^verbatim>\<open>generateContent\<close> gives the parts of each candidate, None where the optional chain
  \<^verbatim>\<open>content?.parts\<close> is undefined.
\<close>

record env =
  now :: nat
  pick :: nat
  jwt_sign :: "payload \<Rightarrow> string"
  jwt_verify :: "string \<Rightarrow> payload option"
  bcrypt_hash :: "string \<Rightarrow> string"
  bcrypt_compare :: "string option \<Rightarrow> string \<Rightarrow> exn + bool"
  sendMessage :: "content list \<Rightarrow> part list \<Rightarrow> exn + string"
  generateContent :: "string \<Rightarrow> exn + part list option list option"

definition colors :: "string list" where
  "colors = [''#4a90e2'', ''#e24a4a'', ''#4ae285'', ''#e2a74a'', ''#9b4ae2'']"

text \<open>\<^verbatim>\<open>colors[Math.floor(Math.random() * colors.length)]\<close>\<close>

definition avatar :: "env \<Rightarrow> string" where
  "avatar e = colors ! (pick e mod length colors)"

subsection \<open>The bearer-token middleware\<close>

text \<open>\<^verbatim>\<open>s.split(c)\<close> for a one-character separator.\<close>

fun split_on :: "char \<Rightarrow> string \<Rightarrow> string list" where
  "split_on c [] = [[]]"
| "split_on c (x # xs) =
     (if x = c then [] # split_on c xs
      else (case split_on c xs of [] \<Rightarrow> [[x]] | w # ws \<Rightarrow> (x # w) # ws))"

text \<open>
  \<^verbatim>\<open>const token = authHeader && authHeader.split(' ')[1]\<close>, as the test
  \<^verbatim>\<open>!token\<close> reads it: None when the token is undefined or empty.
\<close>

definition bearer_token :: "string option \<Rightarrow> string option" where
  "bearer_token authHeader =
     (case authHeader of
        None \<Rightarrow> None
      | Some h \<Rightarrow>
          (if h = [] then None
           else (case split_on CHR '' '' h of
                   a # t # rest \<Rightarrow> if t = [] then None else Some t
                 | _ \<Rightarrow> None)))"

definition authenticateToken :: "env \<Rightarrow> request \<Rightarrow> response + payload" where
  "authenticateToken e req =
     (case bearer_token (authorization req) of
        None \<Rightarrow> Inl (send 401 (error_json ''Access denied. Token missing.''))
      | Some token \<Rightarrow>
          (case jwt_verify e token of
             None \<Rightarrow> Inl (send 403 (error_json ''Invalid token.''))
           | Some u \<Rightarrow> Inr u))"

section \<open>The MongoDB server (server.ts and its later revision)\<close>

subsection \<open>Schemas and collections\<close>

record user_doc =
  u_id :: nat
  u_name :: string
  u_email :: string
  u_password :: string
  u_avatarColor :: string

record conversation_doc =
  c_id :: nat
  c_userId :: nat
  c_title :: string
  c_updatedAt :: nat

record message_doc =
  m_id :: nat
  m_conversationId :: nat
  m_userId :: nat
  m_role :: string
  m_text :: string
  m_timestamp :: nat

record project_doc =
  p_id :: nat
  p_userId :: nat
  p_name :: string
  p_description :: "string option"
  p_content :: "string option"
  p_createdAt :: nat

record task_doc =
  t_id :: nat
  t_userId :: nat
  t_title :: string
  t_completed :: bool
  t_createdAt :: nat

text \<open>
  The five collections, the next fresh ObjectId, and what the connection will answer to
  the coming operations: True for an operation that rejects (no entry: it succeeds).
\<close>

record mongo =
  users :: "user_doc list"
  conversations :: "conversation_doc list"
  messages :: "message_doc list"
  projects :: "project_doc list"
  tasks :: "task_doc list"
  next_id :: nat
  faults :: "bool list"

definition db_call :: "(mongo, unit) action" where
  "db_call s =
     (case faults s of
        [] \<Rightarrow> (Inr (), s)
      | f # fs \<Rightarrow> ((if f then Inl DbError else Inr ()), s\<lparr>faults := fs\<rparr>))"

definition fresh_id :: "(mongo, nat) action" where
  "fresh_id s = (Inr (next_id s), s\<lparr>next_id := Suc (next_id s)\<rparr>)"

text \<open>A filter on a reference: Mongoose drops a key whose value is undefined.\<close>

definition matches :: "idref \<Rightarrow> nat \<Rightarrow> bool" where
  "matches r i = (case r of Absent \<Rightarrow> True | Malformed \<Rightarrow> False | Id n \<Rightarrow> i = n)"

definition cast_ref :: "idref \<Rightarrow> (mongo, unit) action" where
  "cast_ref r = (case r of Malformed \<Rightarrow> throw CastError | _ \<Rightarrow> ok ())"

text \<open>The filter \<^verbatim>\<open>{ email }\<close>.\<close>

definition has_email :: "string option \<Rightarrow> user_doc \<Rightarrow> bool" where
  "has_email email u = (case email of None \<Rightarrow> True | Some a \<Rightarrow> u_email u = a)"

text \<open>\<^verbatim>\<open>User.findOne({ email })\<close>\<close>

definition User_findOne :: "string option \<Rightarrow> (mongo, user_doc option) action" where
  "User_findOne email =
     andThen db_call (\<lambda>_ s. (Inr (find (has_email email) (users s)), s))"

text \<open>
  \<^verbatim>\<open>new User({...}).save()\<close>: name, email and password are required (a required
  string is not empty), the email is unique.
\<close>

definition User_save :: "string \<Rightarrow> string \<Rightarrow> string \<Rightarrow> string \<Rightarrow> (mongo, user_doc) action" where
  "User_save name email password avatarColor =
     andThen fresh_id (\<lambda>i.
       if name = [] \<or> email = [] \<or> password = [] then throw ValidationError
       else andThen db_call (\<lambda>_ s.
         if email \<in> set (map u_email (users s)) then (Inl DuplicateKey, s)
         else (let u = \<lparr>u_id = i, u_name = name, u_email = email, u_password = password,
                          u_avatarColor = avatarColor\<rparr>
               in (Inr u, s\<lparr>users := users s @ [u]\<rparr>))))"

text \<open>\<^verbatim>\<open>new Conversation({ userId, title }).save()\<close>\<close>

definition Conversation_save :: "env \<Rightarrow> nat \<Rightarrow> string \<Rightarrow> (mongo, conversation_doc) action" where
  "Conversation_save e userId title =
     andThen fresh_id (\<lambda>i.
       andThen db_call (\<lambda>_ s.
         (let c = \<lparr>c_id = i, c_userId = userId, c_title = title, c_updatedAt = now e\<rparr>
          in (Inr c, s\<lparr>conversations := conversations s @ [c]\<rparr>))))"

text \<open>
  \<^verbatim>\<open>new Message({ conversationId, userId, role, text }).save()\<close>: the conversation
  id and the text are required, the role is one of user and ai.
\<close>

definition Message_save ::
  "env \<Rightarrow> idref \<Rightarrow> nat \<Rightarrow> string \<Rightarrow> string \<Rightarrow> (mongo, message_doc) action" where
  "Message_save e conversationId userId role txt =
     andThen fresh_id (\<lambda>i.
       case conversationId of
         Id c \<Rightarrow>
           if txt = [] \<or> role \<notin> set [''user'', ''ai''] then throw ValidationError
           else andThen db_call (\<lambda>_ s.
             (let m = \<lparr>m_id = i, m_conversationId = c, m_userId = userId, m_role = role,
                        m_text = txt, m_timestamp = now e\<rparr>
              in (Inr m, s\<lparr>messages := messages s @ [m]\<rparr>)))
       | _ \<Rightarrow> throw ValidationError)"

text \<open>The validator of a required string: it must be there and not be empty.\<close>

definition required :: "string option \<Rightarrow> (mongo, string) action" where
  "required v =
     (case v of None \<Rightarrow> throw ValidationError
      | Some t \<Rightarrow> if t = [] then throw ValidationError else ok t)"

text \<open>\<^verbatim>\<open>new Project({ userId, name, description, content }).save()\<close>\<close>

definition Project_save ::
  "env \<Rightarrow> nat \<Rightarrow> string option \<Rightarrow> string option \<Rightarrow> string option \<Rightarrow> (mongo, project_doc) action" where
  "Project_save e userId name description cont =
     andThen fresh_id (\<lambda>i.
       andThen (required name) (\<lambda>nm.
         andThen db_call (\<lambda>_ s.
           (let p = \<lparr>p_id = i, p_userId = userId, p_name = nm,
                      p_description = description, p_content = cont, p_createdAt = now e\<rparr>
            in (Inr p, s\<lparr>projects := projects s @ [p]\<rparr>)))))"

text \<open>\<^verbatim>\<open>new Task({ userId, title }).save()\<close>\<close>

definition Task_save :: "env \<Rightarrow> nat \<Rightarrow> string option \<Rightarrow> (mongo, task_doc) action" where
  "Task_save e userId title =
     andThen fresh_id (\<lambda>i.
       andThen (required title) (\<lambda>ttl.
         andThen db_call (\<lambda>_ s.
           (let t = \<lparr>t_id = i, t_userId = userId, t_title = ttl,
                      t_completed = False, t_createdAt = now e\<rparr>
            in (Inr t, s\<lparr>tasks := tasks s @ [t]\<rparr>)))))"

text \<open>\<^verbatim>\<open>Conversation.findByIdAndUpdate(conversationId, { updatedAt: new Date() })\<close>;
  an undefined id is looked up as null and finds nothing.\<close>

definition Conversation_findByIdAndUpdate :: "env \<Rightarrow> idref \<Rightarrow> (mongo, unit) action" where
  "Conversation_findByIdAndUpdate e conversationId =
     andThen (cast_ref conversationId) (\<lambda>_.
       andThen db_call (\<lambda>_ s.
         (Inr (), s\<lparr>conversations :=
            map (\<lambda>c. if conversationId = Id (c_id c) then c\<lparr>c_updatedAt := now e\<rparr> else c)
              (conversations s)\<rparr>)))"

text \<open>\<^verbatim>\<open>Conversation.find({ userId }).sort({ updatedAt: -1 })\<close>\<close>

definition Conversation_find :: "nat \<Rightarrow> (mongo, conversation_doc list) action" where
  "Conversation_find userId =
     andThen db_call (\<lambda>_ s.
       (Inr (rev (sort_key c_updatedAt (filter (\<lambda>c. c_userId c = userId) (conversations s)))), s))"

text \<open>\<^verbatim>\<open>Message.find({ userId, conversationId }).sort({ timestamp: 1 })\<close>\<close>

definition Message_find :: "nat \<Rightarrow> idref \<Rightarrow> (mongo, message_doc list) action" where
  "Message_find userId conversationId =
     andThen (cast_ref conversationId) (\<lambda>_.
       andThen db_call (\<lambda>_ s.
         (Inr (sort_key m_timestamp
            (filter (\<lambda>m. m_userId m = userId \<and> matches conversationId (m_conversationId m))
               (messages s))), s)))"

text \<open>\<^verbatim>\<open>Project.find({ userId }).sort({ createdAt: -1 })\<close>\<close>

definition Project_find :: "nat \<Rightarrow> (mongo, project_doc list) action" where
  "Project_find userId =
     andThen db_call (\<lambda>_ s.
       (Inr (rev (sort_key p_createdAt (filter (\<lambda>p. p_userId p = userId) (projects s)))), s))"

text \<open>\<^verbatim>\<open>Task.find({ userId }).sort({ createdAt: -1 })\<close>\<close>

definition Task_find :: "nat \<Rightarrow> (mongo, task_doc list) action" where
  "Task_find userId =
     andThen db_call (\<lambda>_ s.
       (Inr (rev (sort_key t_createdAt (filter (\<lambda>t. t_userId t = userId) (tasks s)))), s))"

text \<open>\<^verbatim>\<open>Message.deleteMany({ conversationId: id, userId })\<close>\<close>

definition Message_deleteMany :: "idref \<Rightarrow> nat \<Rightarrow> (mongo, unit) action" where
  "Message_deleteMany conversationId userId =
     andThen (cast_ref conversationId) (\<lambda>_.
       andThen db_call (\<lambda>_ s.
         (Inr (), s\<lparr>messages :=
            filter (\<lambda>m. \<not> (matches conversationId (m_conversationId m) \<and> m_userId m = userId))
              (messages s)\<rparr>)))"

text \<open>\<^verbatim>\<open>Conversation.deleteOne({ _id: id, userId })\<close>: the first match goes.\<close>

fun remove_first :: "('a \<Rightarrow> bool) \<Rightarrow> 'a list \<Rightarrow> 'a list" where
  "remove_first P [] = []"
| "remove_first P (x # xs) = (if P x then xs else x # remove_first P xs)"

definition Conversation_deleteOne :: "idref \<Rightarrow> nat \<Rightarrow> (mongo, unit) action" where
  "Conversation_deleteOne conversationId userId =
     andThen (cast_ref conversationId) (\<lambda>_.
       andThen db_call (\<lambda>_ s.
         (Inr (), s\<lparr>conversations :=
            remove_first (\<lambda>c. matches conversationId (c_id c) \<and> c_userId c = userId)
              (conversations s)\<rparr>)))"

text \<open>\<^verbatim>\<open>Task.findOneAndUpdate({ _id: id, userId }, { completed })\<close>: the first match
  is updated; an undefined \<^verbatim>\<open>completed\<close> sets nothing.\<close>

fun update_first :: "('a \<Rightarrow> bool) \<Rightarrow> ('a \<Rightarrow> 'a) \<Rightarrow> 'a list \<Rightarrow> 'a list" where
  "update_first P g [] = []"
| "update_first P g (x # xs) = (if P x then g x # xs else x # update_first P g xs)"

definition Task_findOneAndUpdate :: "idref \<Rightarrow> nat \<Rightarrow> bool option \<Rightarrow> (mongo, unit) action" where
  "Task_findOneAndUpdate taskId userId completed =
     andThen (cast_ref taskId) (\<lambda>_.
       andThen db_call (\<lambda>_ s.
         (Inr (), s\<lparr>tasks :=
            update_first (\<lambda>t. matches taskId (t_id t) \<and> t_userId t = userId)
              (\<lambda>t. case completed of None \<Rightarrow> t | Some b \<Rightarrow> t\<lparr>t_completed := b\<rparr>)
              (tasks s)\<rparr>)))"

subsection \<open>Documents as JSON\<close>

definition optional_field :: "string \<Rightarrow> string option \<Rightarrow> (string \<times> json) list" where
  "optional_field k v = (case v of None \<Rightarrow> [] | Some t \<Rightarrow> [(k, JStr t)])"

definition message_json :: "message_doc \<Rightarrow> json" where
  "message_json m =
     JObj [(''_id'', JId (m_id m)), (''conversationId'', JId (m_conversationId m)),
           (''userId'', JId (m_userId m)), (''role'', JStr (m_role m)),
           (''text'', JStr (m_text m)), (''timestamp'', JDate (m_timestamp m)),
           (''__v'', JNum 0)]"

definition project_json :: "project_doc \<Rightarrow> json" where
  "project_json p =
     JObj ([(''_id'', JId (p_id p)), (''userId'', JId (p_userId p)), (''name'', JStr (p_name p))]
           @ optional_field ''description'' (p_description p)
           @ optional_field ''content'' (p_content p)
           @ [(''createdAt'', JDate (p_createdAt p)), (''__v'', JNum 0)])"

definition task_json :: "task_doc \<Rightarrow> json" where
  "task_json t =
     JObj [(''_id'', JId (t_id t)), (''userId'', JId (t_userId t)), (''title'', JStr (t_title t)),
           (''completed'', JBool (t_completed t)), (''createdAt'', JDate (t_createdAt t)),
           (''__v'', JNum 0)]"

text \<open>\<^verbatim>\<open>{ id: c._id, title: c.title, updated_at: c.updatedAt }\<close>\<close>

definition conversation_item :: "conversation_doc \<Rightarrow> json" where
  "conversation_item c =
     JObj [(''id'', JId (c_id c)), (''title'', JStr (c_title c)),
           (''updated_at'', JDate (c_updatedAt c))]"

definition auth_json :: "string \<Rightarrow> nat \<Rightarrow> string \<Rightarrow> string \<Rightarrow> string \<Rightarrow> json" where
  "auth_json token i name email avatarColor =
     JObj [(''token'', JStr token),
           (''user'', JObj [(''id'', JId i), (''name'', JStr name), (''email'', JStr email),
                            (''avatarColor'', JStr avatarColor)])]"

definition success_json :: json where
  "success_json = JObj [(''success'', JBool True)]"

subsection \<open>Route handlers\<close>

datatype server_file = ServerTs | ServerLater

text \<open>\<^verbatim>\<open>req.user.id\<close>; \<^verbatim>\<open>req.user\<close> is what the middleware stored.\<close>

definition req_user_id :: "payload option \<Rightarrow> (mongo, nat) action" where
  "req_user_id u = (case u of None \<Rightarrow> throw TypeError | Some p \<Rightarrow> ok (pl_id p))"

definition signup_try :: "env \<Rightarrow> request \<Rightarrow> (mongo, response) action" where
  "signup_try e req =
     (case (b_name req, b_email req, b_password req) of
        (Some name, Some email, Some password) \<Rightarrow>
          if name = [] \<or> email = [] \<or> password = []
          then ok (send 400 (error_json ''Missing fields''))
          else andThen (User_findOne (Some email)) (\<lambda>existingUser.
            case existingUser of
              Some x \<Rightarrow> ok (send 400 (error_json ''Email already exists''))
            | None \<Rightarrow>
                (let hashedPassword = bcrypt_hash e password; avatarColor = avatar e in
                 andThen (User_save name email hashedPassword avatarColor) (\<lambda>user.
                   (let token = jwt_sign e \<lparr>pl_id = u_id user, pl_email = u_email user\<rparr>
                    in ok (send 200 (auth_json token (u_id user) name email avatarColor))))))
      | _ \<Rightarrow> ok (send 400 (error_json ''Missing fields'')))"

definition login_try :: "env \<Rightarrow> request \<Rightarrow> (mongo, response) action" where
  "login_try e req =
     andThen (User_findOne (b_email req)) (\<lambda>user.
       case user of
         None \<Rightarrow> ok (send 401 (error_json ''Invalid credentials''))
       | Some u \<Rightarrow>
           andThen (lift (bcrypt_compare e (b_password req) (u_password u))) (\<lambda>validPassword.
             if \<not> validPassword then ok (send 401 (error_json ''Invalid credentials''))
             else (let token = jwt_sign e \<lparr>pl_id = u_id u, pl_email = u_email u\<rparr>
                   in ok (send 200
                        (auth_json token (u_id u) (u_name u) (u_email u) (u_avatarColor u))))))"

text \<open>\<^verbatim>\<open>{ role: msg.role === 'user' ? 'user' : 'model', parts: [{ text: msg.text }] }\<close>\<close>

definition format_history :: "history_item list \<Rightarrow> content list" where
  "format_history h =
     map (\<lambda>msg. \<lparr>g_role = (if h_role msg = ''user'' then ''user'' else ''model''),
                  g_parts = [TextPart (h_text msg)]\<rparr>) h"

text \<open>
  POST /api/chat. In \<^verbatim>\<open>server.ts\<close> the history is mapped as it arrives, so an absent
  history is a TypeError; the later revision reads \<^verbatim>\<open>history || []\<close>, accepts an image
  in place of the text, and sends the parts it collected.
\<close>

text \<open>The \<^verbatim>\<open>parts\<close> array of the later revision: the text if there is one, then
  the image if there is one.\<close>

definition message_parts :: "request \<Rightarrow> part list" where
  "message_parts req =
     (case b_text req of
        None \<Rightarrow> []
      | Some txt \<Rightarrow> if txt = [] then [] else [TextPart txt])
     @ (case b_image req of
          None \<Rightarrow> []
        | Some i \<Rightarrow> [InlinePart (img_mimeType i) (img_data i)])"

fun chat_try :: "server_file \<Rightarrow> env \<Rightarrow> payload option \<Rightarrow> request \<Rightarrow> (mongo, response) action" where
  "chat_try ServerTs e user req =
     andThen (req_user_id user) (\<lambda>userId.
       case b_text req of
         None \<Rightarrow> ok (send 400 (error_json ''Message text is required''))
       | Some txt \<Rightarrow>
           if txt = [] then ok (send 400 (error_json ''Message text is required''))
           else
             andThen (Message_save e (b_conversationId req) userId ''user'' txt) (\<lambda>userMsg.
             andThen (Conversation_findByIdAndUpdate e (b_conversationId req)) (\<lambda>_.
             andThen (case b_history req of
                        None \<Rightarrow> throw TypeError
                      | Some h \<Rightarrow> ok (format_history h)) (\<lambda>chatHistory.
             andThen (lift (sendMessage e chatHistory [TextPart txt])) (\<lambda>aiText.
             andThen (Message_save e (b_conversationId req) userId ''ai'' aiText) (\<lambda>aiMsg.
             ok (send 200 (JObj [(''text'', JStr aiText)]))))))))"
| "chat_try ServerLater e user req =
     andThen (req_user_id user) (\<lambda>userId.
       if falsy (b_text req) \<and> b_image req = None
       then ok (send 400 (error_json ''Message text or image is required''))
       else
         andThen (Message_save e (b_conversationId req) userId ''user''
                    (or_else (b_text req) ''[Image attached]'')) (\<lambda>userMsg.
         andThen (Conversation_findByIdAndUpdate e (b_conversationId req)) (\<lambda>_.
         (let chatHistory = format_history (case b_history req of None \<Rightarrow> [] | Some h \<Rightarrow> h);
              parts = message_parts req
          in
         andThen (lift (sendMessage e chatHistory parts)) (\<lambda>aiText.
         andThen (Message_save e (b_conversationId req) userId ''ai'' aiText) (\<lambda>aiMsg.
         ok (send 200 (JObj [(''text'', JStr aiText)]))))))))"

text \<open>\<^verbatim>\<open>result.response.candidates?.[0]?.content?.parts\<close>\<close>

definition first_parts :: "part list option list option \<Rightarrow> part list option" where
  "first_parts candidates =
     (case candidates of None \<Rightarrow> None | Some [] \<Rightarrow> None | Some (c # cs) \<Rightarrow> c)"

text \<open>The loop over the parts: the first one with \<^verbatim>\<open>inlineData\<close> answers.\<close>

fun first_inline :: "part list \<Rightarrow> (string \<times> string) option" where
  "first_inline [] = None"
| "first_inline (TextPart t # ps) = first_inline ps"
| "first_inline (InlinePart mimeType dat # ps) = Some (mimeType, dat)"

text \<open>
  POST /api/generate-image. \<^verbatim>\<open>server.ts\<close> calls the model and then answers 501,
  whatever came back (its comments call the call a placeholder); the later revision
  looks for image data in the first candidate.
\<close>

fun generate_image_try :: "server_file \<Rightarrow> env \<Rightarrow> request \<Rightarrow> (mongo, response) action" where
  "generate_image_try ServerTs e req =
     (case b_prompt req of
        None \<Rightarrow> ok (send 400 (error_json ''Prompt is required''))
      | Some prompt \<Rightarrow>
          if prompt = [] then ok (send 400 (error_json ''Prompt is required''))
          else andThen (lift (generateContent e prompt)) (\<lambda>result.
            ok (send 501
              (error_json ''Image generation not yet implemented on backend with this model.''))))"
| "generate_image_try ServerLater e req =
     (case b_prompt req of
        None \<Rightarrow> ok (send 400 (error_json ''Prompt is required''))
      | Some prompt \<Rightarrow>
          if prompt = [] then ok (send 400 (error_json ''Prompt is required''))
          else andThen (lift (generateContent e prompt)) (\<lambda>result.
            case first_parts result of
              None \<Rightarrow> ok (send 500 (error_json ''No image generated in response''))
            | Some parts \<Rightarrow>
                (case first_inline parts of
                   Some (mimeType, dat) \<Rightarrow>
                     ok (send 200
                       (JObj [(''imageUrl'', JStr (''data:'' @ mimeType @ '';base64,'' @ dat))]))
                 | None \<Rightarrow> ok (send 500 (error_json ''No image generated in response'')))))"

definition get_conversations_try :: "payload option \<Rightarrow> (mongo, response) action" where
  "get_conversations_try user =
     andThen (req_user_id user) (\<lambda>userId.
       andThen (Conversation_find userId) (\<lambda>convs.
         ok (send 200 (JArr (map conversation_item convs)))))"

definition post_conversations_try :: "env \<Rightarrow> payload option \<Rightarrow> request \<Rightarrow> (mongo, response) action" where
  "post_conversations_try e user req =
     andThen (req_user_id user) (\<lambda>userId.
       andThen (Conversation_save e userId (or_else (b_title req) ''New Chat'')) (\<lambda>conv.
         ok (send 200 (JObj [(''id'', JId (c_id conv)), (''title'', JStr (c_title conv))]))))"

definition delete_conversation_try :: "payload option \<Rightarrow> request \<Rightarrow> (mongo, response) action" where
  "delete_conversation_try user req =
     andThen (req_user_id user) (\<lambda>userId.
       andThen (Message_deleteMany (param_id req) userId) (\<lambda>_.
         andThen (Conversation_deleteOne (param_id req) userId) (\<lambda>_.
           ok (send 200 success_json))))"

definition get_messages_try :: "payload option \<Rightarrow> request \<Rightarrow> (mongo, response) action" where
  "get_messages_try user req =
     andThen (req_user_id user) (\<lambda>userId.
       andThen (Message_find userId (q_conversationId req)) (\<lambda>msgs.
         ok (send 200 (JArr (map message_json msgs)))))"

definition get_projects_try :: "payload option \<Rightarrow> (mongo, response) action" where
  "get_projects_try user =
     andThen (req_user_id user) (\<lambda>userId.
       andThen (Project_find userId) (\<lambda>ps.
         ok (send 200 (JArr (map project_json ps)))))"

definition post_projects_try :: "env \<Rightarrow> payload option \<Rightarrow> request \<Rightarrow> (mongo, response) action" where
  "post_projects_try e user req =
     andThen (req_user_id user) (\<lambda>userId.
       andThen (Project_save e userId (b_name req) (b_description req) (b_content req)) (\<lambda>project.
         ok (send 200 (project_json project))))"

definition get_tasks_try :: "payload option \<Rightarrow> (mongo, response) action" where
  "get_tasks_try user =
     andThen (req_user_id user) (\<lambda>userId.
       andThen (Task_find userId) (\<lambda>ts.
         ok (send 200 (JArr (map task_json ts)))))"

definition post_tasks_try :: "env \<Rightarrow> payload option \<Rightarrow> request \<Rightarrow> (mongo, response) action" where
  "post_tasks_try e user req =
     andThen (req_user_id user) (\<lambda>userId.
       andThen (Task_save e userId (b_title req)) (\<lambda>task.
         ok (send 200 (task_json task))))"

definition patch_task_try :: "payload option \<Rightarrow> request \<Rightarrow> (mongo, response) action" where
  "patch_task_try user req =
     andThen (req_user_id user) (\<lambda>userId.
       andThen (Task_findOneAndUpdate (param_id req) userId (b_completed req)) (\<lambda>_.
         ok (send 200 success_json)))"

subsection \<open>The route table\<close>

datatype route =
    PostSignup | PostLogin | PostChat | PostGenerateImage
  | GetConversations | PostConversations | DeleteConversation
  | GetMessages
  | GetProjects | PostProjects
  | GetTasks | PostTasks | PatchTask

text \<open>The routes registered with \<^verbatim>\<open>authenticateToken\<close>.\<close>

fun protected :: "route \<Rightarrow> bool" where
  "protected PostSignup = False"
| "protected PostLogin = False"
| "protected r = True"

fun try_block ::
  "server_file \<Rightarrow> env \<Rightarrow> route \<Rightarrow> payload option \<Rightarrow> request \<Rightarrow> (mongo, response) action" where
  "try_block f e PostSignup user req = signup_try e req"
| "try_block f e PostLogin user req = login_try e req"
| "try_block f e PostChat user req = chat_try f e user req"
| "try_block f e PostGenerateImage user req = generate_image_try f e req"
| "try_block f e GetConversations user req = get_conversations_try user"
| "try_block f e PostConversations user req = post_conversations_try e user req"
| "try_block f e DeleteConversation user req = delete_conversation_try user req"
| "try_block f e GetMessages user req = get_messages_try user req"
| "try_block f e GetProjects user req = get_projects_try user"
| "try_block f e PostProjects user req = post_projects_try e user req"
| "try_block f e GetTasks user req = get_tasks_try user"
| "try_block f e PostTasks user req = post_tasks_try e user req"
| "try_block f e PatchTask user req = patch_task_try user req"

text \<open>The message of each route's catch block.\<close>

fun failure :: "route \<Rightarrow> string" where
  "failure PostSignup = ''Signup failed''"
| "failure PostLogin = ''Login failed''"
| "failure PostChat = ''Failed to get AI response''"
| "failure PostGenerateImage = ''Image generation failed''"
| "failure GetConversations = ''Failed to fetch conversations''"
| "failure PostConversations = ''Failed to create conversation''"
| "failure DeleteConversation = ''Failed to delete conversation''"
| "failure GetMessages = ''Failed to fetch messages''"
| "failure GetProjects = ''Failed to fetch projects''"
| "failure PostProjects = ''Failed to create project''"
| "failure GetTasks = ''Failed to fetch tasks''"
| "failure PostTasks = ''Failed to create task''"
| "failure PatchTask = ''Failed to update task''"

definition catch_block :: "route \<Rightarrow> exn \<Rightarrow> response" where
  "catch_block r x = send 500 (error_json (failure r))"

text \<open>
  A request to a route: the middleware first where the route has it, then the handler.
  \<^verbatim>\<open>raised\<close> is the exception the handler's try block ended in, if it ran and
  ended in one.
\<close>

definition handle :: "server_file \<Rightarrow> env \<Rightarrow> route \<Rightarrow> request \<Rightarrow> mongo \<Rightarrow> response \<times> mongo" where
  "handle f e r req s =
     (if protected r then
        (case authenticateToken e req of
           Inl denied \<Rightarrow> (denied, s)
         | Inr u \<Rightarrow> try_catch (try_block f e r (Some u) req) (catch_block r) s)
      else try_catch (try_block f e r None req) (catch_block r) s)"

definition exception_of :: "(exn + 'a) \<times> 's \<Rightarrow> exn option" where
  "exception_of out = (case fst out of Inl x \<Rightarrow> Some x | Inr a \<Rightarrow> None)"


section \<open>The SQLite server (the earlier revision)\<close>

text \<open>
  No token and no hashing here: a request names its user by a \<^verbatim>\<open>userId\<close> in the query
  or the body. Ids in requests are numbers (decimal strings in the query and the route
  parameter; None where the string is absent or, for the route parameter, not a number).
\<close>

record user_row =
  ur_id :: nat
  ur_name :: string
  ur_email :: string
  ur_password :: string
  ur_avatarColor :: string

record conversation_row =
  cr_id :: nat
  cr_user_id :: nat
  cr_title :: string
  cr_updated_at :: nat

record message_row =
  mr_id :: nat
  mr_conversation_id :: nat
  mr_user_id :: nat
  mr_role :: string
  mr_text :: string
  mr_timestamp :: nat

record project_row =
  pr_id :: nat
  pr_user_id :: nat
  pr_name :: string
  pr_description :: string
  pr_content :: string
  pr_created_at :: nat

record task_row =
  tr_id :: nat
  tr_user_id :: nat
  tr_title :: string
  tr_completed :: nat
  tr_created_at :: nat

text \<open>
  The five tables, the last row id each AUTOINCREMENT column gave out, and what the
  database will answer to the coming statements: True for a statement that fails (disk,
  lock, a foreign key the driver enforces); no entry: it runs.
\<close>

record sqlite =
  t_users :: "user_row list"
  t_conversations :: "conversation_row list"
  t_chat_messages :: "message_row list"
  t_projects :: "project_row list"
  t_tasks :: "task_row list"
  seq_users :: nat
  seq_conversations :: nat
  seq_chat_messages :: nat
  seq_projects :: nat
  seq_tasks :: nat
  sq_faults :: "bool list"

record sq_request =
  sp_id :: "nat option"
  sq_userId :: "nat option"
  sq_conversationId :: "nat option"
  sb_userId :: "nat option"
  sb_conversationId :: "nat option"
  sb_name :: "string option"
  sb_email :: "string option"
  sb_password :: "string option"
  sb_title :: "string option"
  sb_role :: "string option"
  sb_text :: "string option"
  sb_description :: "string option"
  sb_content :: "string option"
  sb_completed :: "bool option"

definition sq_call :: "(sqlite, unit) action" where
  "sq_call s =
     (case sq_faults s of
        [] \<Rightarrow> (Inr (), s)
      | f # fs \<Rightarrow> ((if f then Inl SqliteError else Inr ()), s\<lparr>sq_faults := fs\<rparr>))"

text \<open>Binding a parameter: the driver refuses \<^verbatim>\<open>undefined\<close> with a TypeError.\<close>

definition bind_param :: "'a option \<Rightarrow> (sqlite, 'a) action" where
  "bind_param v = (case v of None \<Rightarrow> throw TypeError | Some a \<Rightarrow> ok a)"

text \<open>\<^verbatim>\<open>!userId\<close> for a number of the JSON body.\<close>

definition falsy_num :: "nat option \<Rightarrow> bool" where
  "falsy_num v = (case v of None \<Rightarrow> True | Some n \<Rightarrow> n = 0)"

text \<open>\<^verbatim>\<open>INSERT INTO users (name, email, password, avatarColor) VALUES (?, ?, ?, ?)\<close>;
  the email column is UNIQUE.\<close>

definition users_insert ::
  "string option \<Rightarrow> string option \<Rightarrow> string option \<Rightarrow> string \<Rightarrow> (sqlite, nat) action" where
  "users_insert name email password avatarColor =
     andThen (bind_param name) (\<lambda>n.
     andThen (bind_param email) (\<lambda>em.
     andThen (bind_param password) (\<lambda>pw.
     andThen sq_call (\<lambda>_ s.
       if em \<in> set (map ur_email (t_users s)) then (Inl SqliteConstraintUnique, s)
       else (let i = Suc (seq_users s);
                 u = \<lparr>ur_id = i, ur_name = n, ur_email = em, ur_password = pw,
                      ur_avatarColor = avatarColor\<rparr>
             in (Inr i, s\<lparr>t_users := t_users s @ [u], seq_users := i\<rparr>))))))"

text \<open>\<^verbatim>\<open>SELECT id, name, email, avatarColor FROM users WHERE email = ? AND password = ?\<close>\<close>

definition users_get :: "string option \<Rightarrow> string option \<Rightarrow> (sqlite, user_row option) action" where
  "users_get email password =
     andThen (bind_param email) (\<lambda>em.
     andThen (bind_param password) (\<lambda>pw.
     andThen sq_call (\<lambda>_ s.
       (Inr (find (\<lambda>u. ur_email u = em \<and> ur_password u = pw) (t_users s)), s))))"

definition conversations_all :: "nat \<Rightarrow> (sqlite, conversation_row list) action" where
  "conversations_all userId =
     andThen sq_call (\<lambda>_ s.
       (Inr (rev (sort_key cr_updated_at
          (filter (\<lambda>c. cr_user_id c = userId) (t_conversations s)))), s))"

definition conversations_insert :: "env \<Rightarrow> nat \<Rightarrow> string \<Rightarrow> (sqlite, nat) action" where
  "conversations_insert e userId title =
     andThen sq_call (\<lambda>_ s.
       (let i = Suc (seq_conversations s);
            c = \<lparr>cr_id = i, cr_user_id = userId, cr_title = title, cr_updated_at = now e\<rparr>
        in (Inr i, s\<lparr>t_conversations := t_conversations s @ [c], seq_conversations := i\<rparr>)))"

definition chat_messages_all :: "nat \<Rightarrow> nat \<Rightarrow> (sqlite, message_row list) action" where
  "chat_messages_all userId conversationId =
     andThen sq_call (\<lambda>_ s.
       (Inr (sort_key mr_timestamp
          (filter (\<lambda>m. mr_user_id m = userId \<and> mr_conversation_id m = conversationId)
             (t_chat_messages s))), s))"

definition chat_messages_insert ::
  "env \<Rightarrow> nat \<Rightarrow> nat \<Rightarrow> string option \<Rightarrow> string option \<Rightarrow> (sqlite, nat) action" where
  "chat_messages_insert e conversationId userId role txt =
     andThen (bind_param role) (\<lambda>r.
     andThen (bind_param txt) (\<lambda>t.
     andThen sq_call (\<lambda>_ s.
       (let i = Suc (seq_chat_messages s);
            m = \<lparr>mr_id = i, mr_conversation_id = conversationId, mr_user_id = userId,
                 mr_role = r, mr_text = t, mr_timestamp = now e\<rparr>
        in (Inr i, s\<lparr>t_chat_messages := t_chat_messages s @ [m], seq_chat_messages := i\<rparr>)))))"

text \<open>\<^verbatim>\<open>UPDATE conversations SET updated_at = CURRENT_TIMESTAMP WHERE id = ?\<close>\<close>

definition conversations_touch :: "env \<Rightarrow> nat \<Rightarrow> (sqlite, unit) action" where
  "conversations_touch e conversationId =
     andThen sq_call (\<lambda>_ s.
       (Inr (), s\<lparr>t_conversations :=
          map (\<lambda>c. if cr_id c = conversationId then c\<lparr>cr_updated_at := now e\<rparr> else c)
            (t_conversations s)\<rparr>))"

definition sq_delete_messages :: "(message_row \<Rightarrow> bool) \<Rightarrow> (sqlite, unit) action" where
  "sq_delete_messages P =
     andThen sq_call (\<lambda>_ s.
       (Inr (), s\<lparr>t_chat_messages := filter (\<lambda>m. \<not> P m) (t_chat_messages s)\<rparr>))"

definition sq_delete_conversations :: "(conversation_row \<Rightarrow> bool) \<Rightarrow> (sqlite, unit) action" where
  "sq_delete_conversations P =
     andThen sq_call (\<lambda>_ s.
       (Inr (), s\<lparr>t_conversations := filter (\<lambda>c. \<not> P c) (t_conversations s)\<rparr>))"

definition projects_all :: "nat \<Rightarrow> (sqlite, project_row list) action" where
  "projects_all userId =
     andThen sq_call (\<lambda>_ s.
       (Inr (rev (sort_key pr_created_at
          (filter (\<lambda>p. pr_user_id p = userId) (t_projects s)))), s))"

definition projects_insert ::
  "env \<Rightarrow> nat \<Rightarrow> string option \<Rightarrow> string option \<Rightarrow> string option \<Rightarrow> (sqlite, nat) action" where
  "projects_insert e userId name description cont =
     andThen (bind_param name) (\<lambda>n.
     andThen (bind_param description) (\<lambda>d.
     andThen (bind_param cont) (\<lambda>c.
     andThen sq_call (\<lambda>_ s.
       (let i = Suc (seq_projects s);
            p = \<lparr>pr_id = i, pr_user_id = userId, pr_name = n, pr_description = d,
                 pr_content = c, pr_created_at = now e\<rparr>
        in (Inr i, s\<lparr>t_projects := t_projects s @ [p], seq_projects := i\<rparr>))))))"

definition tasks_all :: "nat \<Rightarrow> (sqlite, task_row list) action" where
  "tasks_all userId =
     andThen sq_call (\<lambda>_ s.
       (Inr (rev (sort_key tr_created_at
          (filter (\<lambda>t. tr_user_id t = userId) (t_tasks s)))), s))"

definition tasks_insert :: "env \<Rightarrow> nat \<Rightarrow> string option \<Rightarrow> (sqlite, nat) action" where
  "tasks_insert e userId title =
     andThen (bind_param title) (\<lambda>ttl.
     andThen sq_call (\<lambda>_ s.
       (let i = Suc (seq_tasks s);
            t = \<lparr>tr_id = i, tr_user_id = userId, tr_title = ttl, tr_completed = 0,
                 tr_created_at = now e\<rparr>
        in (Inr i, s\<lparr>t_tasks := t_tasks s @ [t], seq_tasks := i\<rparr>))))"

text \<open>\<^verbatim>\<open>UPDATE tasks SET completed = ? WHERE id = ?\<close>\<close>

definition tasks_update :: "nat \<Rightarrow> nat option \<Rightarrow> (sqlite, unit) action" where
  "tasks_update completed taskId =
     andThen sq_call (\<lambda>_ s.
       (Inr (), s\<lparr>t_tasks :=
          map (\<lambda>t. if Some (tr_id t) = taskId then t\<lparr>tr_completed := completed\<rparr> else t)
            (t_tasks s)\<rparr>))"

subsection \<open>Rows as JSON\<close>

definition user_row_json :: "user_row \<Rightarrow> json" where
  "user_row_json u =
     JObj [(''id'', JId (ur_id u)), (''name'', JStr (ur_name u)), (''email'', JStr (ur_email u)),
           (''avatarColor'', JStr (ur_avatarColor u))]"

definition conversation_row_json :: "conversation_row \<Rightarrow> json" where
  "conversation_row_json c =
     JObj [(''id'', JId (cr_id c)), (''user_id'', JId (cr_user_id c)),
           (''title'', JStr (cr_title c)), (''updated_at'', JDate (cr_updated_at c))]"

definition message_row_json :: "message_row \<Rightarrow> json" where
  "message_row_json m =
     JObj [(''id'', JId (mr_id m)), (''conversation_id'', JId (mr_conversation_id m)),
           (''user_id'', JId (mr_user_id m)), (''role'', JStr (mr_role m)),
           (''text'', JStr (mr_text m)), (''timestamp'', JDate (mr_timestamp m))]"

definition project_row_json :: "project_row \<Rightarrow> json" where
  "project_row_json p =
     JObj [(''id'', JId (pr_id p)), (''user_id'', JId (pr_user_id p)),
           (''name'', JStr (pr_name p)), (''description'', JStr (pr_description p)),
           (''content'', JStr (pr_content p)), (''created_at'', JDate (pr_created_at p))]"

definition task_row_json :: "task_row \<Rightarrow> json" where
  "task_row_json t =
     JObj [(''id'', JId (tr_id t)), (''user_id'', JId (tr_user_id t)),
           (''title'', JStr (tr_title t)), (''completed'', JNum (int (tr_completed t))),
           (''created_at'', JDate (tr_created_at t))]"

subsection \<open>Route handlers\<close>

definition sq_signup_try :: "env \<Rightarrow> sq_request \<Rightarrow> (sqlite, response) action" where
  "sq_signup_try e req =
     (if falsy (sb_name req) \<or> falsy (sb_email req) \<or> falsy (sb_password req)
      then ok (send 400 (error_json ''Missing fields''))
      else (let avatarColor = avatar e in
        andThen (users_insert (sb_name req) (sb_email req) (sb_password req) avatarColor) (\<lambda>rowid.
          ok (send 200
            (JObj [(''id'', JId rowid), (''name'', JStr (or_else (sb_name req) [])),
                   (''email'', JStr (or_else (sb_email req) [])),
                   (''avatarColor'', JStr avatarColor)])))))"

definition sq_login_try :: "sq_request \<Rightarrow> (sqlite, response) action" where
  "sq_login_try req =
     andThen (users_get (sb_email req) (sb_password req)) (\<lambda>user.
       case user of
         Some u \<Rightarrow> ok (send 200 (user_row_json u))
       | None \<Rightarrow> ok (send 401 (error_json ''Invalid credentials'')))"

definition sq_get_conversations_try :: "sq_request \<Rightarrow> (sqlite, response) action" where
  "sq_get_conversations_try req =
     (case sq_userId req of
        None \<Rightarrow> ok (send 200 (JArr []))
      | Some userId \<Rightarrow>
          andThen (conversations_all userId) (\<lambda>convs.
            ok (send 200 (JArr (map conversation_row_json convs)))))"

definition sq_post_conversations_try :: "env \<Rightarrow> sq_request \<Rightarrow> (sqlite, response) action" where
  "sq_post_conversations_try e req =
     (case sb_userId req of
        None \<Rightarrow> ok (send 401 (error_json ''Unauthorized''))
      | Some userId \<Rightarrow>
          if userId = 0 then ok (send 401 (error_json ''Unauthorized''))
          else andThen (conversations_insert e userId (or_else (sb_title req) ''New Chat'')) (\<lambda>rowid.
            ok (send 200 (JObj [(''id'', JId rowid),
                                (''title'', JStr (or_else (sb_title req) ''New Chat''))]))))"

definition sq_delete_conversation_try :: "sq_request \<Rightarrow> (sqlite, response) action" where
  "sq_delete_conversation_try req =
     (case sq_userId req of
        None \<Rightarrow> ok (send 401 (error_json ''Unauthorized''))
      | Some userId \<Rightarrow>
          andThen (sq_delete_messages
                     (\<lambda>m. Some (mr_conversation_id m) = sp_id req \<and> mr_user_id m = userId)) (\<lambda>_.
          andThen (sq_delete_conversations
                     (\<lambda>c. Some (cr_id c) = sp_id req \<and> cr_user_id c = userId)) (\<lambda>_.
            ok (send 200 success_json))))"

definition sq_get_messages_try :: "sq_request \<Rightarrow> (sqlite, response) action" where
  "sq_get_messages_try req =
     (case (sq_userId req, sq_conversationId req) of
        (Some userId, Some conversationId) \<Rightarrow>
          andThen (chat_messages_all userId conversationId) (\<lambda>msgs.
            ok (send 200 (JArr (map message_row_json msgs))))
      | _ \<Rightarrow> ok (send 200 (JArr [])))"

definition sq_post_messages_try :: "env \<Rightarrow> sq_request \<Rightarrow> (sqlite, response) action" where
  "sq_post_messages_try e req =
     (case (sb_userId req, sb_conversationId req) of
        (Some userId, Some conversationId) \<Rightarrow>
          if userId = 0 \<or> conversationId = 0 then ok (send 400 (error_json ''Missing fields''))
          else
            andThen (chat_messages_insert e conversationId userId (sb_role req) (sb_text req)) (\<lambda>rowid.
            andThen (conversations_touch e conversationId) (\<lambda>_.
              ok (send 200 (JObj ([(''id'', JId rowid)] @ optional_field ''role'' (sb_role req)
                                   @ optional_field ''text'' (sb_text req))))))
      | _ \<Rightarrow> ok (send 400 (error_json ''Missing fields'')))"

definition sq_delete_messages_try :: "sq_request \<Rightarrow> (sqlite, response) action" where
  "sq_delete_messages_try req =
     (case sq_userId req of
        None \<Rightarrow> ok (send 401 (error_json ''Unauthorized''))
      | Some userId \<Rightarrow>
          andThen (sq_delete_messages (\<lambda>m. mr_user_id m = userId)) (\<lambda>_.
          andThen (sq_delete_conversations (\<lambda>c. cr_user_id c = userId)) (\<lambda>_.
            ok (send 200 success_json))))"

definition sq_get_projects_try :: "sq_request \<Rightarrow> (sqlite, response) action" where
  "sq_get_projects_try req =
     (case sq_userId req of
        None \<Rightarrow> ok (send 200 (JArr []))
      | Some userId \<Rightarrow>
          andThen (projects_all userId) (\<lambda>ps.
            ok (send 200 (JArr (map project_row_json ps)))))"

definition sq_post_projects_try :: "env \<Rightarrow> sq_request \<Rightarrow> (sqlite, response) action" where
  "sq_post_projects_try e req =
     (if falsy_num (sb_userId req) then ok (send 401 (error_json ''Unauthorized''))
      else
        andThen (bind_param (sb_userId req)) (\<lambda>userId.
        andThen (projects_insert e userId (sb_name req) (sb_description req) (sb_content req)) (\<lambda>rowid.
          ok (send 200 (JObj ([(''id'', JId rowid)] @ optional_field ''name'' (sb_name req)
                               @ optional_field ''description'' (sb_description req)
                               @ optional_field ''content'' (sb_content req)))))))"

definition sq_get_tasks_try :: "sq_request \<Rightarrow> (sqlite, response) action" where
  "sq_get_tasks_try req =
     (case sq_userId req of
        None \<Rightarrow> ok (send 200 (JArr []))
      | Some userId \<Rightarrow>
          andThen (tasks_all userId) (\<lambda>ts.
            ok (send 200 (JArr (map task_row_json ts)))))"

definition sq_post_tasks_try :: "env \<Rightarrow> sq_request \<Rightarrow> (sqlite, response) action" where
  "sq_post_tasks_try e req =
     (if falsy_num (sb_userId req) then ok (send 401 (error_json ''Unauthorized''))
      else
        andThen (bind_param (sb_userId req)) (\<lambda>userId.
        andThen (tasks_insert e userId (sb_title req)) (\<lambda>rowid.
          ok (send 200 (JObj ([(''id'', JId rowid)] @ optional_field ''title'' (sb_title req)
                               @ [(''completed'', JNum 0)]))))))"

definition sq_patch_task_try :: "sq_request \<Rightarrow> (sqlite, response) action" where
  "sq_patch_task_try req =
     andThen (tasks_update (if sb_completed req = Some True then 1 else 0) (sp_id req)) (\<lambda>_.
       ok (send 200 success_json))"

subsection \<open>The route table\<close>

datatype sq_route =
    SqPostSignup | SqPostLogin
  | SqGetConversations | SqPostConversations | SqDeleteConversation
  | SqGetMessages | SqPostMessages | SqDeleteMessages
  | SqGetProjects | SqPostProjects
  | SqGetTasks | SqPostTasks | SqPatchTask

fun sq_try_block :: "env \<Rightarrow> sq_route \<Rightarrow> sq_request \<Rightarrow> (sqlite, response) action" where
  "sq_try_block e SqPostSignup req = sq_signup_try e req"
| "sq_try_block e SqPostLogin req = sq_login_try req"
| "sq_try_block e SqGetConversations req = sq_get_conversations_try req"
| "sq_try_block e SqPostConversations req = sq_post_conversations_try e req"
| "sq_try_block e SqDeleteConversation req = sq_delete_conversation_try req"
| "sq_try_block e SqGetMessages req = sq_get_messages_try req"
| "sq_try_block e SqPostMessages req = sq_post_messages_try e req"
| "sq_try_block e SqDeleteMessages req = sq_delete_messages_try req"
| "sq_try_block e SqGetProjects req = sq_get_projects_try req"
| "sq_try_block e SqPostProjects req = sq_post_projects_try e req"
| "sq_try_block e SqGetTasks req = sq_get_tasks_try req"
| "sq_try_block e SqPostTasks req = sq_post_tasks_try e req"
| "sq_try_block e SqPatchTask req = sq_patch_task_try req"

fun sq_failure :: "sq_route \<Rightarrow> string" where
  "sq_failure SqPostSignup = ''Failed to sign up''"
| "sq_failure SqPostLogin = ''Failed to log in''"
| "sq_failure SqGetConversations = ''Failed to fetch conversations''"
| "sq_failure SqPostConversations = ''Failed to create conversation''"
| "sq_failure SqDeleteConversation = ''Failed to delete conversation''"
| "sq_failure SqGetMessages = ''Failed to fetch messages''"
| "sq_failure SqPostMessages = ''Failed to save message''"
| "sq_failure SqDeleteMessages = ''Failed to delete messages''"
| "sq_failure SqGetProjects = ''Failed to fetch projects''"
| "sq_failure SqPostProjects = ''Failed to create project''"
| "sq_failure SqGetTasks = ''Failed to fetch tasks''"
| "sq_failure SqPostTasks = ''Failed to create task''"
| "sq_failure SqPatchTask = ''Failed to update task''"

text \<open>The catch blocks: signup alone looks at the error it caught.\<close>

definition sq_catch_block :: "sq_route \<Rightarrow> exn \<Rightarrow> response" where
  "sq_catch_block r x =
     (if r = SqPostSignup \<and> x = SqliteConstraintUnique
      then send 400 (error_json ''Email already exists'')
      else send 500 (error_json (sq_failure r)))"

definition sq_handle :: "env \<Rightarrow> sq_route \<Rightarrow> sq_request \<Rightarrow> sqlite \<Rightarrow> response \<times> sqlite" where
  "sq_handle e r req s = try_catch (sq_try_block e r req) (sq_catch_block r) s"


section \<open>Notions used in the statements\<close>

text \<open>The next \<^verbatim>\<open>n\<close> database operations do not fail.\<close>

definition spared :: "nat \<Rightarrow> bool list \<Rightarrow> bool" where
  "spared n fs = (True \<notin> set (take n fs))"

text \<open>An action that leaves the users collection as it found it.\<close>

definition keeps_users :: "(mongo, 'a) action \<Rightarrow> bool" where
  "keeps_users m = (\<forall>s. users (snd (m s)) = users s)"

subsection \<open>Sample collaborators, requests and databases\<close>

definition ann :: payload where
  "ann = \<lparr>pl_id = 1, pl_email = ''ann@example.org''\<rparr>"

definition bob :: payload where
  "bob = \<lparr>pl_id = 2, pl_email = ''bob@example.org''\<rparr>"

text \<open>A model that answers, tokens for Ann and Bob, a salted hash written as a prefix.\<close>

definition sample_env :: env where
  "sample_env =
     \<lparr>now = 100, pick = 7,
      jwt_sign = (\<lambda>p. ''tok-'' @ pl_email p),
      jwt_verify = (\<lambda>t. if t = ''tok-ann@example.org'' then Some ann
                         else if t = ''tok-bob@example.org'' then Some bob else None),
      bcrypt_hash = (\<lambda>p. ''$2a$10$'' @ p),
      bcrypt_compare = (\<lambda>p h. case p of None \<Rightarrow> Inl BcryptError
                                | Some q \<Rightarrow> Inr (h = ''$2a$10$'' @ q)),
      sendMessage = (\<lambda>h ps. Inr ''Hello!''),
      generateContent = (\<lambda>p. Inr (Some [Some [TextPart ''here'', InlinePart ''image/png'' ''iVBOR'']]))\<rparr>"

text \<open>The same with a model that throws.\<close>

definition failing_env :: env where
  "failing_env = sample_env\<lparr>sendMessage := (\<lambda>h ps. Inl ModelError)\<rparr>"

definition no_request :: request where
  "no_request =
     \<lparr>authorization = None, param_id = Absent, q_conversationId = Absent,
      b_name = None, b_email = None, b_password = None, b_conversationId = Absent,
      b_text = None, b_history = None, b_image = None, b_prompt = None, b_title = None,
      b_description = None, b_content = None, b_completed = None\<rparr>"

definition as_ann :: request where
  "as_ann = no_request\<lparr>authorization := Some ''Bearer tok-ann@example.org''\<rparr>"

definition as_bob :: request where
  "as_bob = no_request\<lparr>authorization := Some ''Bearer tok-bob@example.org''\<rparr>"

definition chat_request :: request where
  "chat_request = as_ann\<lparr>b_conversationId := Id 10, b_text := Some ''hi'', b_history := Some []\<rparr>"

definition sample_db :: mongo where
  "sample_db =
     \<lparr>users = [\<lparr>u_id = 1, u_name = ''Ann'', u_email = ''ann@example.org'',
                 u_password = ''$2a$10$pw-ann'', u_avatarColor = ''#4a90e2''\<rparr>,
               \<lparr>u_id = 2, u_name = ''Bob'', u_email = ''bob@example.org'',
                 u_password = ''$2a$10$pw-bob'', u_avatarColor = ''#e24a4a''\<rparr>],
      conversations = [\<lparr>c_id = 10, c_userId = 1, c_title = ''Ann chat'', c_updatedAt = 50\<rparr>,
                       \<lparr>c_id = 11, c_userId = 2, c_title = ''Bob chat'', c_updatedAt = 60\<rparr>],
      messages = [\<lparr>m_id = 20, m_conversationId = 11, m_userId = 2, m_role = ''user'',
                    m_text = ''secret'', m_timestamp = 61\<rparr>],
      projects = [\<lparr>p_id = 30, p_userId = 2, p_name = ''plan'', p_description = None,
                    p_content = None, p_createdAt = 62\<rparr>],
      tasks = [\<lparr>t_id = 40, t_userId = 2, t_title = ''todo'', t_completed = False,
                 t_createdAt = 63\<rparr>,
               \<lparr>t_id = 41, t_userId = 1, t_title = ''mine'', t_completed = False,
                 t_createdAt = 64\<rparr>],
      next_id = 100, faults = []\<rparr>"


text \<open>The same for the SQLite server.\<close>

definition sq_no_request :: sq_request where
  "sq_no_request =
     \<lparr>sp_id = None, sq_userId = None, sq_conversationId = None, sb_userId = None,
      sb_conversationId = None, sb_name = None, sb_email = None, sb_password = None,
      sb_title = None, sb_role = None, sb_text = None, sb_description = None,
      sb_content = None, sb_completed = None\<rparr>"

definition sample_sqlite :: sqlite where
  "sample_sqlite =
     \<lparr>t_users = [\<lparr>ur_id = 1, ur_name = ''Ann'', ur_email = ''ann@example.org'',
                   ur_password = ''pw-ann'', ur_avatarColor = ''#4a90e2''\<rparr>],
      t_conversations = [\<lparr>cr_id = 1, cr_user_id = 1, cr_title = ''Ann chat'', cr_updated_at = 50\<rparr>],
      t_chat_messages = [], t_projects = [], t_tasks = [],
      seq_users = 1, seq_conversations = 1, seq_chat_messages = 0, seq_projects = 0,
      seq_tasks = 0, sq_faults = []\<rparr>"

definition sq_signup_request :: "string \<Rightarrow> string \<Rightarrow> string \<Rightarrow> sq_request" where
  "sq_signup_request name email password =
     sq_no_request\<lparr>sb_name := Some name, sb_email := Some email, sb_password := Some password\<rparr>"

definition login_request :: "string \<Rightarrow> string \<Rightarrow> request" where
  "login_request email password = no_request\<lparr>b_email := Some email, b_password := Some password\<rparr>"

definition sq_login_request :: "string \<Rightarrow> string \<Rightarrow> sq_request" where
  "sq_login_request email password =
     sq_no_request\<lparr>sb_email := Some email, sb_password := Some password\<rparr>"

definition signup_request :: "string \<Rightarrow> string \<Rightarrow> string \<Rightarrow> request" where
  "signup_request name email password =
     no_request\<lparr>b_name := Some name, b_email := Some email, b_password := Some password\<rparr>"

text \<open>Requests of Ann's, and the sample databases after a request.\<close>

definition sq_as :: "nat \<Rightarrow> sq_request" where
  "sq_as uid = sq_no_request\<lparr>sq_userId := Some uid, sb_userId := Some uid\<rparr>"
















section \<open>Theorems\<close>

lemma app_step_view: "view s \<in> set views \<Longrightarrow> view (app_step f s e) \<in> set views"
  by (cases e; cases f)
     (auto simp add: views_def handleSend_def handleNewChat_def handleDeleteAll_def
        mockLogout_def)

lemma foldl_app_step_view:
  "view s \<in> set views \<Longrightarrow> view (foldl (app_step f) s evs) \<in> set views"
  by (induction evs arbitrary: s) (simp_all add: app_step_view)

text \<open>
  C10. The view starts at home, and after any sequence of events of the page, in either
  revision of the component, it is one of the seven views home, chat, voice, imagine,
  history, projects, grokpedia.
\<close>

theorem view_one_of_seven:
  "view app_init = ''home'' \<and> view (app_run f evs) \<in> set views"
proof
  show "view app_init = ''home''" by (simp add: app_init_def)
  have "view app_init \<in> set views" by (simp add: app_init_def views_def)
  then show "view (app_run f evs) \<in> set views"
    unfolding app_run_def by (rule foldl_app_step_view)
qed

theorem view_one_of_seven_witness:
  "view app_init = ''home'' \<and>
   view (app_run AppLater [SignedIn, Send ''hi'' False, NavHistory, HistoryOpen ''c1'', SignOut])
     \<in> set views"
  by (rule view_one_of_seven)









subsection \<open>Running a handler: shared facts\<close>

lemmas action_defs = ok_def throw_def lift_def andThen_def try_catch_def exception_of_def

lemma db_call_eq:
  "db_call s = ((if spared 1 (faults s) then Inr () else Inl DbError), s\<lparr>faults := tl (faults s)\<rparr>)"
  by (cases "faults s") (auto simp: db_call_def spared_def)

lemma spared_Suc: "spared (Suc n) fs = (spared 1 fs \<and> spared n (tl fs))"
  by (cases fs) (auto simp: spared_def)

lemma spared_2: "spared 2 fs = (spared 1 fs \<and> spared 1 (tl fs))"
  using spared_Suc [of 1 fs] by (simp add: numeral_2_eq_2)


lemma spared_Nil [simp]: "spared n []"
  by (simp add: spared_def)

lemma sq_call_eq:
  "sq_call t = ((if spared 1 (sq_faults t) then Inr () else Inl SqliteError),
      t\<lparr>sq_faults := tl (sq_faults t)\<rparr>)"
  by (cases "sq_faults t") (auto simp: sq_call_def spared_def)

lemma auth_ann: "authenticateToken sample_env as_ann = Inr ann"
  by (simp add: authenticateToken_def bearer_token_def as_ann_def no_request_def sample_env_def)

lemma auth_ann_failing: "authenticateToken failing_env as_ann = Inr ann"
  by (simp add: authenticateToken_def bearer_token_def as_ann_def no_request_def sample_env_def
      failing_env_def)

subsection \<open>POST /api/chat\<close>

text \<open>
  C8. POST /api/chat is not atomic on failure. For an authenticated request with a text
  and a conversation id (and, in server.ts, a history), when the save of the user's
  message and the timestamp update succeed and the model call then raises, the response
  is 500 with the generic error body, and the database keeps the saved user message and
  the updated conversation timestamp.
\<close>

theorem chat_model_failure:
  assumes auth: "authenticateToken e req = Inr u"
    and tx: "b_text req = Some txt" "txt \<noteq> []"
    and conv: "b_conversationId req = Id c"
    and hist: "f = ServerTs \<longrightarrow> b_history req \<noteq> None"
    and db: "spared 2 (faults s)"
    and model: "sendMessage e
        (format_history (case b_history req of None \<Rightarrow> [] | Some h \<Rightarrow> h))
        (case f of ServerTs \<Rightarrow> [TextPart txt] | ServerLater \<Rightarrow> message_parts req)
        = Inl x"
  shows "handle f e PostChat req s =
     (send 500 (error_json ''Failed to get AI response''),
      s\<lparr>messages := messages s @
           [\<lparr>m_id = next_id s, m_conversationId = c, m_userId = pl_id u, m_role = ''user'',
             m_text = txt, m_timestamp = now e\<rparr>],
        conversations :=
           map (\<lambda>cv. if c_id cv = c then cv\<lparr>c_updatedAt := now e\<rparr> else cv) (conversations s),
        next_id := Suc (next_id s),
        faults := drop 2 (faults s)\<rparr>)"
proof -
  from db have d: "spared 1 (faults s)" "spared 1 (tl (faults s))"
    by (simp_all add: spared_2)
  show ?thesis
    using auth tx conv hist model d
    by (cases f)
       (auto simp: handle_def action_defs Message_save_def Conversation_findByIdAndUpdate_def
        cast_ref_def fresh_id_def req_user_id_def db_call_eq catch_block_def falsy_def or_else_def
        drop_Suc numeral_2_eq_2 drop_0 Let_def eq_commute [of "c_id cv" for cv] message_parts_def
        split: option.splits)
qed

theorem chat_model_failure_witness:
  "handle ServerTs failing_env PostChat chat_request sample_db =
     (send 500 (error_json ''Failed to get AI response''),
      sample_db\<lparr>messages := messages sample_db @
           [\<lparr>m_id = next_id sample_db, m_conversationId = 10, m_userId = pl_id ann,
             m_role = ''user'', m_text = ''hi'', m_timestamp = now failing_env\<rparr>],
        conversations :=
           map (\<lambda>cv. if c_id cv = 10 then cv\<lparr>c_updatedAt := now failing_env\<rparr> else cv)
             (conversations sample_db),
        next_id := Suc (next_id sample_db),
        faults := drop 2 (faults sample_db)\<rparr>)"
proof (rule chat_model_failure [where x = ModelError])
  show "authenticateToken failing_env chat_request = Inr ann"
    using auth_ann_failing by (simp add: authenticateToken_def chat_request_def)
qed (simp_all add: chat_request_def as_ann_def no_request_def sample_db_def failing_env_def
       sample_env_def)





subsection \<open>POST /api/generate-image\<close>




subsection \<open>Exceptions\<close>




subsection \<open>POST /api/auth/login\<close>




subsection \<open>The list routes\<close>

text \<open>
  C6. Per-user isolation of the list routes. For an authenticated GET on
  /api/conversations, /api/messages, /api/projects or /api/tasks, every item of the
  returned list is the JSON of a stored record whose userId is the id of the token's
  user.
\<close>

theorem lists_are_own:
  assumes auth: "authenticateToken e req = Inr u"
  shows
   "(fst (handle f e GetConversations req s) = send 200 (JArr items) \<longrightarrow>
       (\<forall>j\<in>set items. \<exists>c\<in>set (conversations s). c_userId c = pl_id u \<and> j = conversation_item c)) \<and>
    (fst (handle f e GetMessages req s) = send 200 (JArr items) \<longrightarrow>
       (\<forall>j\<in>set items. \<exists>m\<in>set (messages s). m_userId m = pl_id u \<and> j = message_json m)) \<and>
    (fst (handle f e GetProjects req s) = send 200 (JArr items) \<longrightarrow>
       (\<forall>j\<in>set items. \<exists>p\<in>set (projects s). p_userId p = pl_id u \<and> j = project_json p)) \<and>
    (fst (handle f e GetTasks req s) = send 200 (JArr items) \<longrightarrow>
       (\<forall>j\<in>set items. \<exists>t\<in>set (tasks s). t_userId t = pl_id u \<and> j = task_json t))"
proof (intro conjI impI)
  assume "fst (handle f e GetConversations req s) = send 200 (JArr items)"
  with auth have "items = map conversation_item
      (rev (sort_key c_updatedAt (filter (\<lambda>c. c_userId c = pl_id u) (conversations s))))"
    by (auto simp: handle_def get_conversations_try_def Conversation_find_def req_user_id_def
        action_defs db_call_eq catch_block_def send_def error_json_def split: if_splits)
  then show "\<forall>j\<in>set items. \<exists>c\<in>set (conversations s). c_userId c = pl_id u \<and> j = conversation_item c"
    by auto
next
  assume "fst (handle f e GetMessages req s) = send 200 (JArr items)"
  with auth have "items = map message_json
      (sort_key m_timestamp (filter (\<lambda>m. m_userId m = pl_id u \<and>
          matches (q_conversationId req) (m_conversationId m)) (messages s)))"
    by (auto simp: handle_def get_messages_try_def Message_find_def req_user_id_def cast_ref_def
        action_defs db_call_eq catch_block_def send_def error_json_def
        split: if_splits idref.splits)
  then show "\<forall>j\<in>set items. \<exists>m\<in>set (messages s). m_userId m = pl_id u \<and> j = message_json m"
    by auto
next
  assume "fst (handle f e GetProjects req s) = send 200 (JArr items)"
  with auth have "items = map project_json
      (rev (sort_key p_createdAt (filter (\<lambda>p. p_userId p = pl_id u) (projects s))))"
    by (auto simp: handle_def get_projects_try_def Project_find_def req_user_id_def
        action_defs db_call_eq catch_block_def send_def error_json_def split: if_splits)
  then show "\<forall>j\<in>set items. \<exists>p\<in>set (projects s). p_userId p = pl_id u \<and> j = project_json p"
    by auto
next
  assume "fst (handle f e GetTasks req s) = send 200 (JArr items)"
  with auth have "items = map task_json
      (rev (sort_key t_createdAt (filter (\<lambda>t. t_userId t = pl_id u) (tasks s))))"
    by (auto simp: handle_def get_tasks_try_def Task_find_def req_user_id_def
        action_defs db_call_eq catch_block_def send_def error_json_def split: if_splits)
  then show "\<forall>j\<in>set items. \<exists>t\<in>set (tasks s). t_userId t = pl_id u \<and> j = task_json t"
    by auto
qed

lemma auth_bob: "authenticateToken sample_env as_bob = Inr bob"
  by (simp add: authenticateToken_def bearer_token_def as_bob_def no_request_def sample_env_def)

lemma lists_of_sample:
  "fst (handle ServerTs sample_env GetTasks as_ann sample_db) =
     send 200 (JArr [task_json (tasks sample_db ! 1)])"
  "fst (handle ServerTs sample_env GetConversations as_ann sample_db) =
     send 200 (JArr [conversation_item (conversations sample_db ! 0)])"
  "fst (handle ServerTs sample_env GetMessages as_bob sample_db) =
     send 200 (JArr [message_json (messages sample_db ! 0)])"
  "fst (handle ServerTs sample_env GetProjects as_bob sample_db) =
     send 200 (JArr [project_json (projects sample_db ! 0)])"
  using auth_ann auth_bob
  by (simp_all add: handle_def get_tasks_try_def Task_find_def get_conversations_try_def
      Conversation_find_def get_messages_try_def Message_find_def get_projects_try_def
      Project_find_def cast_ref_def matches_def req_user_id_def action_defs db_call_def
      sample_db_def ann_def bob_def as_bob_def no_request_def)

theorem lists_are_own_witness:
  "(\<exists>t\<in>set (tasks sample_db). t_userId t = pl_id ann \<and>
      task_json (tasks sample_db ! 1) = task_json t) \<and>
   (\<exists>c\<in>set (conversations sample_db). c_userId c = pl_id ann \<and>
      conversation_item (conversations sample_db ! 0) = conversation_item c) \<and>
   (\<exists>m\<in>set (messages sample_db). m_userId m = pl_id bob \<and>
      message_json (messages sample_db ! 0) = message_json m) \<and>
   (\<exists>p\<in>set (projects sample_db). p_userId p = pl_id bob \<and>
      project_json (projects sample_db ! 0) = project_json p)"
  using lists_are_own [OF auth_ann, of ServerTs sample_db "[task_json (tasks sample_db ! 1)]"]
    lists_are_own [OF auth_ann, of ServerTs sample_db
      "[conversation_item (conversations sample_db ! 0)]"]
    lists_are_own [OF auth_bob, of ServerTs sample_db "[message_json (messages sample_db ! 0)]"]
    lists_are_own [OF auth_bob, of ServerTs sample_db "[project_json (projects sample_db ! 0)]"]
    lists_of_sample
  by simp

subsection \<open>Tokens and passwords\<close>

lemma keeps_ok [simp]: "keeps_users (ok a)"
  and keeps_throw [simp]: "keeps_users (throw x)"
  and keeps_lift [simp]: "keeps_users (lift v)"
  by (simp_all add: keeps_users_def action_defs)

lemma keeps_andThen:
  assumes "keeps_users m" and "\<And>a. keeps_users (k a)"
  shows "keeps_users (andThen m k)"
  unfolding keeps_users_def andThen_def
proof
  fix s
  show "users (snd (case m s of (Inl e, s') \<Rightarrow> (Inl e, s') | (Inr a, s') \<Rightarrow> k a s')) = users s"
  proof (cases "m s")
    case (Pair r s')
    with assms(1) have u: "users s' = users s"
      unfolding keeps_users_def by (metis snd_conv)
    show ?thesis
    proof (cases r)
      case (Inl x)
      with Pair u show ?thesis by simp
    next
      case (Inr a)
      with Pair u assms(2) [of a] show ?thesis by (simp add: keeps_users_def)
    qed
  qed
qed

lemma keeps_db_call [simp]: "keeps_users db_call"
  by (simp add: keeps_users_def db_call_def split: list.split)

lemma keeps_fresh_id [simp]: "keeps_users fresh_id"
  by (simp add: keeps_users_def fresh_id_def)

lemma keeps_cast_ref [simp]: "keeps_users (cast_ref r)"
  by (simp add: cast_ref_def split: idref.split)

lemma keeps_req_user_id [simp]: "keeps_users (req_user_id u)"
  by (simp add: req_user_id_def split: option.split)

lemma keeps_required [simp]: "keeps_users (required v)"
  by (simp add: required_def split: option.split)

lemma keeps_Message_save [simp]: "keeps_users (Message_save e c u r t)"
  unfolding Message_save_def
  by (intro keeps_andThen keeps_fresh_id) 
     (auto simp: Let_def keeps_users_def action_defs db_call_def split: idref.split list.split)

lemma keeps_Conversation_save [simp]: "keeps_users (Conversation_save e u t)"
  unfolding Conversation_save_def
  by (intro keeps_andThen keeps_fresh_id keeps_db_call) (simp add: keeps_users_def Let_def)

lemma keeps_Project_save [simp]: "keeps_users (Project_save e u n d c)"
  unfolding Project_save_def
  by (intro keeps_andThen keeps_fresh_id keeps_db_call keeps_required) (simp add: keeps_users_def Let_def)

lemma keeps_Task_save [simp]: "keeps_users (Task_save e u t)"
  unfolding Task_save_def
  by (intro keeps_andThen keeps_fresh_id keeps_db_call keeps_required) (simp add: keeps_users_def Let_def)

lemma keeps_touch [simp]: "keeps_users (Conversation_findByIdAndUpdate e c)"
  unfolding Conversation_findByIdAndUpdate_def
  by (intro keeps_andThen keeps_cast_ref keeps_db_call) (simp add: keeps_users_def)

lemma keeps_finds [simp]:
  "keeps_users (Conversation_find u)" "keeps_users (Message_find u c)"
  "keeps_users (Project_find u)" "keeps_users (Task_find u)" "keeps_users (User_findOne em)"
  unfolding Conversation_find_def Message_find_def Project_find_def Task_find_def User_findOne_def
  by (intro keeps_andThen keeps_cast_ref keeps_db_call; simp add: keeps_users_def)+

lemma keeps_deletes [simp]:
  "keeps_users (Message_deleteMany c u)" "keeps_users (Conversation_deleteOne c u)"
  "keeps_users (Task_findOneAndUpdate c u b)"
  unfolding Message_deleteMany_def Conversation_deleteOne_def Task_findOneAndUpdate_def
  by (intro keeps_andThen keeps_cast_ref keeps_db_call; simp add: keeps_users_def)+

lemma keeps_chat: "keeps_users (chat_try f e u req)"
  by (cases f)
     (auto intro!: keeps_andThen simp: Let_def split: option.split)

lemma keeps_image: "keeps_users (generate_image_try f e req)"
  by (cases f)
     (auto intro!: keeps_andThen simp: Let_def split: option.split)

lemma keeps_login: "keeps_users (login_try e req)"
  unfolding login_try_def
  by (auto intro!: keeps_andThen simp: Let_def split: option.split)

lemma keeps_try_block: "r \<noteq> PostSignup \<Longrightarrow> keeps_users (try_block f e r u req)"
  by (cases r)
     (auto intro!: keeps_andThen
        simp: keeps_chat keeps_image keeps_login get_conversations_try_def
          post_conversations_try_def delete_conversation_try_def get_messages_try_def
          get_projects_try_def post_projects_try_def get_tasks_try_def post_tasks_try_def
          patch_task_try_def)

lemma users_try_catch: "keeps_users m \<Longrightarrow> users (snd (try_catch m h s)) = users s"
  unfolding keeps_users_def try_catch_def
  by (cases "m s") (auto split: sum.split, (metis snd_conv)+)

lemma users_untouched: "r \<noteq> PostSignup \<Longrightarrow> users (snd (handle f e r req s)) = users s"
  by (simp add: handle_def users_try_catch keeps_try_block split: sum.split)

lemma find_has_email_None:
  "(find (has_email (Some em)) us = None) = (em \<notin> set (map u_email us))"
  by (induction us) (auto simp: has_email_def)

lemma find_has_email_Some:
  "find (has_email (Some em)) us = Some u \<Longrightarrow> em \<in> set (map u_email us)"
  using find_has_email_None [of em us] by auto

lemma signup_stores_hash:
  assumes "status (fst (handle f e PostSignup req s)) = 200"
  shows "\<exists>name email pw. b_name req = Some name \<and> b_email req = Some email \<and>
           b_password req = Some pw \<and>
           users (snd (handle f e PostSignup req s)) =
             users s @ [\<lparr>u_id = next_id s, u_name = name, u_email = email,
                         u_password = bcrypt_hash e pw, u_avatarColor = avatar e\<rparr>]"
  using assms
  by (auto simp: handle_def signup_try_def User_findOne_def User_save_def action_defs db_call_eq
      fresh_id_def Let_def send_def catch_block_def find_has_email_None
      dest: find_has_email_Some split: option.splits if_splits)

lemma signup_failure_stores_nothing:
  assumes "status (fst (handle f e PostSignup req s)) \<noteq> 200"
  shows "users (snd (handle f e PostSignup req s)) = users s"
  using assms
  by (auto simp: handle_def signup_try_def User_findOne_def User_save_def action_defs db_call_eq
      fresh_id_def Let_def send_def catch_block_def find_has_email_None
      dest: find_has_email_Some split: option.splits if_splits)

lemma login_by_compare:
  assumes "spared 1 (faults s)" "find (has_email (b_email req)) (users s) = Some u"
  shows "(status (fst (handle f e PostLogin req s)) = 200) =
         (bcrypt_compare e (b_password req) (u_password u) = Inr True)"
  using assms
  by (cases "bcrypt_compare e (b_password req) (u_password u)")
     (auto simp: handle_def login_try_def User_findOne_def action_defs db_call_eq Let_def send_def
       catch_block_def)

lemma sq_signup_stores_plain:
  assumes "status (fst (sq_handle e SqPostSignup q t)) = 200"
  shows "\<exists>name email pw. sb_name q = Some name \<and> sb_email q = Some email \<and>
           sb_password q = Some pw \<and>
           t_users (snd (sq_handle e SqPostSignup q t)) =
             t_users t @ [\<lparr>ur_id = Suc (seq_users t), ur_name = name, ur_email = email,
                           ur_password = pw, ur_avatarColor = avatar e\<rparr>]"
  using assms
  by (auto simp: sq_handle_def sq_signup_try_def users_insert_def bind_param_def falsy_def
      action_defs sq_call_eq Let_def send_def sq_catch_block_def
      split: option.splits if_splits)

lemma find_Some_iff: "(find P xs \<noteq> None) = (\<exists>x\<in>set xs. P x)"
  by (induction xs) auto

lemma sq_login_by_equality:
  assumes "spared 1 (sq_faults t)" "sb_email q = Some em" "sb_password q = Some pw"
  shows "(status (fst (sq_handle e SqPostLogin q t)) = 200) =
         (\<exists>u\<in>set (t_users t). ur_email u = em \<and> ur_password u = pw)"
proof (cases "find (\<lambda>u. ur_email u = em \<and> ur_password u = pw) (t_users t)")
  case None
  then have "\<not> (\<exists>u\<in>set (t_users t). ur_email u = em \<and> ur_password u = pw)"
    using find_Some_iff [of "\<lambda>u. ur_email u = em \<and> ur_password u = pw" "t_users t"] by simp
  with None assms show ?thesis
    by (simp add: sq_handle_def sq_login_try_def users_get_def bind_param_def action_defs
        sq_call_eq send_def)
next
  case (Some a)
  then have "\<exists>u\<in>set (t_users t). ur_email u = em \<and> ur_password u = pw"
    using find_Some_iff [of "\<lambda>u. ur_email u = em \<and> ur_password u = pw" "t_users t"] by simp
  with Some assms show ?thesis
    by (simp add: sq_handle_def sq_login_try_def users_get_def bind_param_def action_defs
        sq_call_eq send_def)
qed

lemma token_missing:
  assumes "protected r" "bearer_token (authorization req) = None"
  shows "handle f e r req s = (send 401 (error_json ''Access denied. Token missing.''), s)"
  using assms by (simp add: handle_def authenticateToken_def)

lemma token_invalid:
  assumes "protected r" "bearer_token (authorization req) = Some t" "jwt_verify e t = None"
  shows "handle f e r req s = (send 403 (error_json ''Invalid token.''), s)"
  using assms by (simp add: handle_def authenticateToken_def)

text \<open>
  C2, amended. On the MongoDB servers: a request to a protected route without a token
  is answered 401 and one whose token does not verify 403, neither touching the
  database; a successful signup stores the bcrypt hash of the password, a failed one
  and every other route leave the users collection as it was; and a login that finds
  the user succeeds exactly when bcrypt's comparison of the submitted password with the
  stored hash says yes. The SQLite server has neither tokens nor hashing: a successful
  signup stores the password as submitted, and a login succeeds exactly when a row has
  that email and that password.
\<close>

theorem bearer_tokens_and_hashes:
  "(protected r \<longrightarrow> bearer_token (authorization req) = None \<longrightarrow>
      handle f e r req s = (send 401 (error_json ''Access denied. Token missing.''), s)) \<and>
   (protected r \<longrightarrow> bearer_token (authorization req) = Some t \<longrightarrow> jwt_verify e t = None \<longrightarrow>
      handle f e r req s = (send 403 (error_json ''Invalid token.''), s)) \<and>
   (status (fst (handle f e PostSignup req s)) = 200 \<longrightarrow>
      (\<exists>name email pw. b_name req = Some name \<and> b_email req = Some email \<and>
         b_password req = Some pw \<and>
         users (snd (handle f e PostSignup req s)) =
           users s @ [\<lparr>u_id = next_id s, u_name = name, u_email = email,
                       u_password = bcrypt_hash e pw, u_avatarColor = avatar e\<rparr>])) \<and>
   (status (fst (handle f e PostSignup req s)) \<noteq> 200 \<longrightarrow>
      users (snd (handle f e PostSignup req s)) = users s) \<and>
   (r \<noteq> PostSignup \<longrightarrow> users (snd (handle f e r req s)) = users s) \<and>
   (spared 1 (faults s) \<longrightarrow> find (has_email (b_email req)) (users s) = Some u \<longrightarrow>
      (status (fst (handle f e PostLogin req s)) = 200) =
      (bcrypt_compare e (b_password req) (u_password u) = Inr True)) \<and>
   (status (fst (sq_handle e SqPostSignup q d)) = 200 \<longrightarrow>
      (\<exists>name email pw. sb_name q = Some name \<and> sb_email q = Some email \<and>
         sb_password q = Some pw \<and>
         t_users (snd (sq_handle e SqPostSignup q d)) =
           t_users d @ [\<lparr>ur_id = Suc (seq_users d), ur_name = name, ur_email = email,
                         ur_password = pw, ur_avatarColor = avatar e\<rparr>])) \<and>
   (spared 1 (sq_faults d) \<longrightarrow> sb_email q = Some em \<longrightarrow> sb_password q = Some pw \<longrightarrow>
      (status (fst (sq_handle e SqPostLogin q d)) = 200) =
      (\<exists>u\<in>set (t_users d). ur_email u = em \<and> ur_password u = pw))"
  using token_missing [of r req f e s] token_invalid [of r req t e f s]
    signup_stores_hash [of f e req s] signup_failure_stores_nothing [of f e req s]
    users_untouched [of r f e req s] login_by_compare [of s req u f e]
    sq_signup_stores_plain [of e q d] sq_login_by_equality [of d q em pw e]
  by blast

text \<open>
  C2, as stated, fails on the SQLite server: after a signup the stored password is the
  submitted text itself, and a list route answers 200 to a request that carries no token.
\<close>

theorem plaintext_password_counterexample:
  "fst (sq_handle sample_env SqPostSignup
         (sq_signup_request ''Cy'' ''cy@example.org'' ''hunter2'') sample_sqlite)
     = send 200 (JObj [(''id'', JId (Suc (seq_users sample_sqlite))), (''name'', JStr ''Cy''),
                       (''email'', JStr ''cy@example.org''),
                       (''avatarColor'', JStr ''#4ae285'')]) \<and>
   map ur_password (t_users (snd (sq_handle sample_env SqPostSignup
         (sq_signup_request ''Cy'' ''cy@example.org'' ''hunter2'') sample_sqlite)))
     = [''pw-ann'', ''hunter2''] \<and>
   fst (sq_handle sample_env SqGetProjects (sq_as 1) sample_sqlite) = send 200 (JArr [])"
  by (simp add: sq_handle_def sq_signup_try_def sq_signup_request_def sq_get_projects_try_def
      projects_all_def
      sq_no_request_def sample_sqlite_def action_defs falsy_def users_insert_def bind_param_def
      sq_call_def sq_catch_block_def Let_def sample_env_def avatar_def colors_def or_else_def
      sq_as_def)

lemma signup_cy:
  "fst (handle ServerTs sample_env PostSignup
          (signup_request ''Cy'' ''cy@example.org'' ''hunter2'') sample_db)
     = send 200 (auth_json ''tok-cy@example.org'' (next_id sample_db) ''Cy'' ''cy@example.org''
          ''#4ae285'')"
  by (simp add: handle_def signup_try_def signup_request_def no_request_def sample_db_def
      sample_env_def User_findOne_def User_save_def action_defs db_call_def fresh_id_def Let_def
      has_email_def avatar_def colors_def)

theorem bearer_tokens_and_hashes_witness:
  "handle ServerTs sample_env GetTasks no_request sample_db
     = (send 401 (error_json ''Access denied. Token missing.''), sample_db) \<and>
   handle ServerTs sample_env GetTasks (no_request\<lparr>authorization := Some ''Bearer forged''\<rparr>)
       sample_db
     = (send 403 (error_json ''Invalid token.''), sample_db) \<and>
   map u_password (users (snd (handle ServerTs sample_env PostSignup
       (signup_request ''Cy'' ''cy@example.org'' ''hunter2'') sample_db)))
     = [''$2a$10$pw-ann'', ''$2a$10$pw-bob'', bcrypt_hash sample_env ''hunter2''] \<and>
   users (snd (handle ServerTs sample_env GetTasks as_ann sample_db)) = users sample_db \<and>
   status (fst (handle ServerTs sample_env PostLogin
       (login_request ''ann@example.org'' ''pw-ann'') sample_db)) = 200 \<and>
   map ur_password (t_users (snd (sq_handle sample_env SqPostSignup
         (sq_signup_request ''Cy'' ''cy@example.org'' ''hunter2'') sample_sqlite)))
     = [''pw-ann'', ''hunter2''] \<and>
   status (fst (sq_handle sample_env SqPostLogin
       (sq_login_request ''ann@example.org'' ''pw-ann'') sample_sqlite)) = 200"
proof -
  note T = bearer_tokens_and_hashes
  have a: "handle ServerTs sample_env GetTasks no_request sample_db
     = (send 401 (error_json ''Access denied. Token missing.''), sample_db)"
    using T [where r = GetTasks and req = no_request and f = ServerTs and e = sample_env
        and s = sample_db]
    by (simp add: bearer_token_def no_request_def)
  have b: "handle ServerTs sample_env GetTasks (no_request\<lparr>authorization := Some ''Bearer forged''\<rparr>)
       sample_db = (send 403 (error_json ''Invalid token.''), sample_db)"
    using T [where r = GetTasks and req = "no_request\<lparr>authorization := Some ''Bearer forged''\<rparr>"
        and f = ServerTs and e = sample_env and s = sample_db and t = "''forged''"]
    by (simp add: bearer_token_def no_request_def sample_env_def)
  have c: "map u_password (users (snd (handle ServerTs sample_env PostSignup
       (signup_request ''Cy'' ''cy@example.org'' ''hunter2'') sample_db)))
     = [''$2a$10$pw-ann'', ''$2a$10$pw-bob'', bcrypt_hash sample_env ''hunter2'']"
    using T [where req = "signup_request ''Cy'' ''cy@example.org'' ''hunter2''"
        and f = ServerTs and e = sample_env and s = sample_db] signup_cy
    by (auto simp: send_def signup_request_def no_request_def sample_db_def)
  have d: "users (snd (handle ServerTs sample_env GetTasks as_ann sample_db)) = users sample_db"
    using T [where r = GetTasks and req = as_ann and f = ServerTs and e = sample_env
        and s = sample_db]
    by simp
  have l: "status (fst (handle ServerTs sample_env PostLogin
       (login_request ''ann@example.org'' ''pw-ann'') sample_db)) = 200"
    using T [where req = "login_request ''ann@example.org'' ''pw-ann''" and f = ServerTs
        and e = sample_env and s = sample_db and u = "hd (users sample_db)"]
    by (simp add: login_request_def no_request_def sample_db_def sample_env_def has_email_def)
  have q: "status (fst (sq_handle sample_env SqPostSignup
         (sq_signup_request ''Cy'' ''cy@example.org'' ''hunter2'') sample_sqlite)) = 200"
    by (simp add: sq_handle_def sq_signup_try_def sq_signup_request_def
      sq_no_request_def sample_sqlite_def action_defs falsy_def users_insert_def bind_param_def
      sq_call_def Let_def send_def)
  have g: "map ur_password (t_users (snd (sq_handle sample_env SqPostSignup
         (sq_signup_request ''Cy'' ''cy@example.org'' ''hunter2'') sample_sqlite)))
     = [''pw-ann'', ''hunter2'']"
    using T [where q = "sq_signup_request ''Cy'' ''cy@example.org'' ''hunter2''"
        and e = sample_env and d = sample_sqlite] q
    by (auto simp: sq_signup_request_def sq_no_request_def sample_sqlite_def)
  have h: "status (fst (sq_handle sample_env SqPostLogin
       (sq_login_request ''ann@example.org'' ''pw-ann'') sample_sqlite)) = 200"
    using T [where q = "sq_login_request ''ann@example.org'' ''pw-ann''"
        and e = sample_env and d = sample_sqlite and em = "''ann@example.org''"
        and pw = "''pw-ann''"]
    by (simp add: sq_login_request_def sq_no_request_def sample_sqlite_def)
  from a b c d l g h show ?thesis by simp
qed

subsection \<open>Creating, then fetching\<close>















end
